theory Spec2Isabelle
  imports Complex_Main "HOL-Library.Sublist"
begin

section \<open>JavaScript primitives used by the server\<close>

text \<open>
  Strings are lists of 8-bit characters (HTTP header values and URL path segments as
  Node hands them over).  Numbers that the code uses as integers are \<open>int\<close>;
  \<open>None\<close> stands for \<open>NaN\<close> where \<open>parseInt\<close> can produce it, and for
  \<open>undefined\<close> where an option or a header may be absent.
\<close>

definition CRLF :: string where
  "CRLF = [CHR 0x0D, CHR 0x0A]"

definition dquote :: string where
  "dquote = [CHR 0x22]"

definition digit_char :: "nat \<Rightarrow> char" where
  "digit_char d = ''0123456789'' ! d"

fun show_nat :: "nat \<Rightarrow> string" where
  "show_nat n = (if n < 10 then [digit_char n] else show_nat (n div 10) @ [digit_char (n mod 10)])"

declare show_nat.simps [simp del]

definition show_int :: "int \<Rightarrow> string" where
  \<comment> \<open>\<open>Number.prototype.toString\<close> on an integer.\<close>
  "show_int i = (if i < 0 then CHR ''-'' # show_nat (nat (- i)) else show_nat (nat i))"

definition js_whitespace :: "char \<Rightarrow> bool" where
  \<comment> \<open>the white space and line terminators of \<open>\s\<close> and of \<open>parseInt\<close>'s trimming,
      among the 8-bit characters\<close>
  "js_whitespace c \<longleftrightarrow> (of_char c :: nat) \<in> {9, 10, 11, 12, 13, 32, 160}"

definition is_digit :: "char \<Rightarrow> bool" where
  "is_digit c \<longleftrightarrow> (let n = (of_char c :: nat) in 48 \<le> n \<and> n \<le> 57)"

definition digit_val :: "char \<Rightarrow> int" where
  "digit_val c = int (of_char c) - 48"

definition digits_value :: "string \<Rightarrow> int" where
  "digits_value ds = foldl (\<lambda>acc c. acc * 10 + digit_val c) 0 ds"

definition parseInt :: "string \<Rightarrow> int option" where
  \<comment> \<open>\<open>parseInt(s, 10)\<close>: leading white space is skipped, one sign is read, then the
      longest run of decimal digits; no digit gives \<open>NaN\<close>.\<close>
  "parseInt s =
     (let t = dropWhile js_whitespace s;
          neg = (case t of c # r \<Rightarrow> c = CHR ''-'' | [] \<Rightarrow> False);
          u = (case t of c # r \<Rightarrow> if c = CHR ''-'' \<or> c = CHR ''+'' then r else t | [] \<Rightarrow> t);
          z = takeWhile is_digit u
      in if z = [] then None
         else Some (if neg then - digits_value z else digits_value z))"

definition to_lower :: "char \<Rightarrow> char" where
  \<comment> \<open>case folding of the \<open>i\<close> flag on the letters A to Z\<close>
  "to_lower c =
     (case map_of (zip ''ABCDEFGHIJKLMNOPQRSTUVWXYZ'' ''abcdefghijklmnopqrstuvwxyz'') c of
        None \<Rightarrow> c
      | Some l \<Rightarrow> l)"

text \<open>
  A number that need not be an integer (a configured maximum) is a real number: the value
  of the decimal it was written as.  \<open>number_toString\<close> is what a template literal and
  \<open>JSON.stringify\<close> print for it: an integer in decimal, and any other number as sign,
  integer part, point and decimal digits (what JavaScript prints for a number of
  magnitude between \<open>10^-6\<close> and \<open>10^21\<close> written with at most 15 significant
  digits).
\<close>

type_synonym number = real

definition is_integer :: "number \<Rightarrow> bool" where
  "is_integer x \<longleftrightarrow> \<lfloor>x\<rfloor> = \<lceil>x\<rceil>"

fun fraction_digits :: "nat \<Rightarrow> number \<Rightarrow> string" where
  "fraction_digits 0 r = []"
| "fraction_digits (Suc n) r =
     (if r = 0 then []
      else digit_char (nat \<lfloor>10 * r\<rfloor>) # fraction_digits n (10 * r - of_int \<lfloor>10 * r\<rfloor>))"

definition number_toString :: "number \<Rightarrow> string" where
  "number_toString x =
     (if is_integer x then show_int \<lfloor>x\<rfloor>
      else (if x < 0 then ''-'' else []) @ show_nat (nat \<lfloor>\<bar>x\<bar>\<rfloor>) @ ''.'' @
           fraction_digits 17 (\<bar>x\<bar> - of_int \<lfloor>\<bar>x\<bar>\<rfloor>))"

definition ceil_div_1000 :: "int \<Rightarrow> int" where
  \<comment> \<open>\<open>Math.ceil(x / 1000)\<close> on an integer \<open>x\<close>\<close>
  "ceil_div_1000 x = - ((- x) div 1000)"

record http_request =
  req_method :: string
  req_url :: string
  req_path :: string
  req_headers :: "string \<rightharpoonup> string"
  req_body :: "string option"

section \<open>Admin route: subdomain validation\<close>

text \<open>
  \<^verbatim>\<open>/^(?:[a-z0-9][a-z0-9\-]{4,63}[a-z0-9]|[a-z0-9]{4,63})$/.test(reqId)\<close>
\<close>

definition lower_alnum :: "char \<Rightarrow> bool" where
  \<comment> \<open>the class \<open>[a-z0-9]\<close>\<close>
  "lower_alnum c \<longleftrightarrow>
     (let n = (of_char c :: nat) in (97 \<le> n \<and> n \<le> 122) \<or> (48 \<le> n \<and> n \<le> 57))"

definition lower_alnum_hyphen :: "char \<Rightarrow> bool" where
  \<comment> \<open>the class \<open>[a-z0-9\-]\<close>\<close>
  "lower_alnum_hyphen c \<longleftrightarrow> lower_alnum c \<or> c = CHR ''-''"

definition subdomain_alt1 :: "string \<Rightarrow> bool" where
  \<comment> \<open>first alternative: \<open>[a-z0-9][a-z0-9\-]{4,63}[a-z0-9]\<close>\<close>
  "subdomain_alt1 s \<longleftrightarrow>
     (case s of
        [] \<Rightarrow> False
      | c # rest \<Rightarrow>
          lower_alnum c \<and> rest \<noteq> [] \<and> lower_alnum (last rest) \<and>
          4 \<le> length (butlast rest) \<and> length (butlast rest) \<le> 63 \<and>
          list_all lower_alnum_hyphen (butlast rest))"

definition subdomain_alt2 :: "string \<Rightarrow> bool" where
  \<comment> \<open>second alternative: \<open>[a-z0-9]{4,63}\<close>\<close>
  "subdomain_alt2 s \<longleftrightarrow> 4 \<le> length s \<and> length s \<le> 63 \<and> list_all lower_alnum s"

definition subdomain_regex_test :: "string \<Rightarrow> bool" where
  "subdomain_regex_test s \<longleftrightarrow> subdomain_alt1 s \<or> subdomain_alt2 s"

definition invalid_subdomain_msg :: string where
  "invalid_subdomain_msg =
     ''Invalid subdomain. Subdomains must be lowercase and between 4 and 63 alphanumeric characters.''"

section \<open>NonceCache and HmacAuthenticator\<close>

datatype jsval = JNum int | JStr string

fun toString :: "jsval \<Rightarrow> string" where
  "toString (JNum n) = show_int n"
| "toString (JStr s) = s"

record nonce_cache =
  cache :: "string \<rightharpoonup> int"   \<comment> \<open>nonce -> expiryTime (ms)\<close>
  ttl :: int

definition new_NonceCache :: "int \<Rightarrow> nonce_cache" where
  "new_NonceCache ttl_seconds = \<lparr> cache = Map.empty, ttl = ttl_seconds * 1000 \<rparr>"

definition cache_has :: "nonce_cache \<Rightarrow> jsval \<Rightarrow> int \<Rightarrow> bool \<times> nonce_cache" where
  \<comment> \<open>\<open>has(nonce)\<close> at time \<open>now\<close>; an expired entry is deleted on the way\<close>
  "cache_has nc nonce now =
     (let nonceStr = toString nonce in
      case cache nc nonceStr of
        None \<Rightarrow> (False, nc)
      | Some expiryTime \<Rightarrow>
          if now \<ge> expiryTime then (False, nc\<lparr> cache := (cache nc)(nonceStr := None) \<rparr>)
          else (True, nc))"

definition cache_add :: "nonce_cache \<Rightarrow> jsval \<Rightarrow> int \<Rightarrow> nonce_cache" where
  "cache_add nc nonce now =
     (let nonceStr = toString nonce; expiryTime = now + ttl nc
      in nc\<lparr> cache := (cache nc)(nonceStr \<mapsto> expiryTime) \<rparr>)"

definition cache_cleanup :: "nonce_cache \<Rightarrow> int \<Rightarrow> nonce_cache" where
  "cache_cleanup nc now =
     nc\<lparr> cache := (\<lambda>k. case cache nc k of
                           None \<Rightarrow> None
                         | Some expiryTime \<Rightarrow> if now \<ge> expiryTime then None else Some expiryTime) \<rparr>"

datatype auth_error =
    missing_auth_header | missing_timestamp | missing_nonce | invalid_auth_format
  | invalid_timestamp | expired_timestamp
  | invalid_nonce | nonce_too_old | nonce_too_new | replay_detected
  | invalid_signature

datatype auth_result = Valid | Invalid auth_error

record hmac_authenticator =
  secret :: string
  timestampTolerance :: int
  nonceThreshold :: int
  nonceCache :: nonce_cache

definition opt_or :: "int option \<Rightarrow> int \<Rightarrow> int" where
  \<comment> \<open>\<open>v || d\<close> on a number that may be undefined\<close>
  "opt_or v d = (case v of None \<Rightarrow> d | Some n \<Rightarrow> if n = 0 then d else n)"

definition new_HmacAuthenticator ::
  "string \<Rightarrow> int option \<Rightarrow> int option \<Rightarrow> int option \<Rightarrow> hmac_authenticator" where
  \<comment> \<open>the constructor, with the secret already loaded\<close>
  "new_HmacAuthenticator sec tolerance threshold cacheTTL =
     \<lparr> secret = sec,
       timestampTolerance = opt_or tolerance 60,
       nonceThreshold = opt_or threshold 3600,
       nonceCache = new_NonceCache (opt_or cacheTTL 7200) \<rparr>"

definition header2 :: "http_request \<Rightarrow> string \<Rightarrow> string \<Rightarrow> string option" where
  \<comment> \<open>\<open>req.headers[k1] || req.headers[k2]\<close>, \<open>None\<close> when the result is falsy\<close>
  "header2 req k1 k2 =
     (let first = (case req_headers req k1 of None \<Rightarrow> None | Some v \<Rightarrow> if v = [] then None else Some v)
      in case first of
           Some v \<Rightarrow> Some v
         | None \<Rightarrow> (case req_headers req k2 of None \<Rightarrow> None | Some v \<Rightarrow> if v = [] then None else Some v))"

definition extractHeaders :: "http_request \<Rightarrow> auth_error + (string \<times> string \<times> string)" where
  "extractHeaders req =
     (case header2 req ''authorization'' ''Authorization'' of
        None \<Rightarrow> Inl missing_auth_header
      | Some authorization \<Rightarrow>
     (case header2 req ''x-timestamp'' ''X-Timestamp'' of
        None \<Rightarrow> Inl missing_timestamp
      | Some timestamp \<Rightarrow>
     (case header2 req ''x-nonce'' ''X-Nonce'' of
        None \<Rightarrow> Inl missing_nonce
      | Some nonce \<Rightarrow> Inr (authorization, timestamp, nonce))))"

definition is_hex :: "char \<Rightarrow> bool" where
  \<comment> \<open>\<open>[a-f0-9]\<close> under the \<open>i\<close> flag\<close>
  "is_hex c \<longleftrightarrow>
     (let n = (of_char c :: nat)
      in (48 \<le> n \<and> n \<le> 57) \<or> (97 \<le> n \<and> n \<le> 102) \<or> (65 \<le> n \<and> n \<le> 70))"

definition parseAuthorizationHeader :: "string \<Rightarrow> auth_error + string" where
  \<comment> \<open>\<open>authorization.match(/^HMAC\s+sha256=([a-f0-9]+)$/i)\<close>, returning group 1\<close>
  "parseAuthorizationHeader authorization =
     (let r1 = drop 4 authorization;
          r2 = dropWhile js_whitespace r1;
          sig = drop 7 r2
      in if map to_lower (take 4 authorization) = ''hmac'' \<and>
            takeWhile js_whitespace r1 \<noteq> [] \<and>
            map to_lower (take 7 r2) = ''sha256='' \<and>
            sig \<noteq> [] \<and> list_all is_hex sig
         then Inr sig
         else Inl invalid_auth_format)"

definition validateTimestamp :: "hmac_authenticator \<Rightarrow> string \<Rightarrow> int \<Rightarrow> auth_error + unit" where
  "validateTimestamp a timestampStr now_ms =
     (case parseInt timestampStr of
        None \<Rightarrow> Inl invalid_timestamp
      | Some timestamp \<Rightarrow>
          (let now = now_ms div 1000;
               diff = \<bar>now - timestamp\<bar>
           in if diff > timestampTolerance a then Inl expired_timestamp else Inr ()))"

definition validateNonce ::
  "hmac_authenticator \<Rightarrow> string \<Rightarrow> string \<Rightarrow> int \<Rightarrow> (auth_error + unit) \<times> hmac_authenticator" where
  \<comment> \<open>a \<open>NaN\<close> timestamp makes both range comparisons false\<close>
  "validateNonce a nonceStr timestampStr now_ms =
     (case parseInt nonceStr of
        None \<Rightarrow> (Inl invalid_nonce, a)
      | Some nonce \<Rightarrow>
          (let timestamp = parseInt timestampStr;
               too_old = (case timestamp of None \<Rightarrow> False
                          | Some t \<Rightarrow> nonce < (t - nonceThreshold a) * 1000);
               too_new = (case timestamp of None \<Rightarrow> False
                          | Some t \<Rightarrow> nonce > (t + timestampTolerance a) * 1000)
           in if too_old then (Inl nonce_too_old, a)
              else if too_new then (Inl nonce_too_new, a)
              else (case cache_has (nonceCache a) (JNum nonce) now_ms of
                      (True, nc) \<Rightarrow> (Inl replay_detected, a\<lparr> nonceCache := nc \<rparr>)
                    | (False, nc) \<Rightarrow> (Inr (), a\<lparr> nonceCache := nc \<rparr>))))"

definition buildMessage :: "string \<Rightarrow> string \<Rightarrow> string \<Rightarrow> string \<Rightarrow> string \<Rightarrow> string" where
  "buildMessage method path timestamp nonce body = method @ path @ timestamp @ nonce @ body"

definition hex_val :: "char \<Rightarrow> nat option" where
  "hex_val c =
     (let n = (of_char c :: nat)
      in if 48 \<le> n \<and> n \<le> 57 then Some (n - 48)
         else if 97 \<le> n \<and> n \<le> 102 then Some (n - 87)
         else if 65 \<le> n \<and> n \<le> 70 then Some (n - 55)
         else None)"

fun hex_decode :: "string \<Rightarrow> nat list" where
  \<comment> \<open>\<open>Buffer.from(s, 'hex')\<close>: pairs of hex digits, cut at the first pair that is not one\<close>
  "hex_decode (a # b # rest) =
     (case hex_val a of
        None \<Rightarrow> []
      | Some x \<Rightarrow> (case hex_val b of None \<Rightarrow> [] | Some y \<Rightarrow> (16 * x + y) # hex_decode rest))"
| "hex_decode _ = []"

definition verifySignature :: "string \<Rightarrow> string \<Rightarrow> bool" where
  "verifySignature provided expected =
     (let providedBuf = hex_decode provided; expectedBuf = hex_decode expected
      in if length providedBuf \<noteq> length expectedBuf then False
         else providedBuf = expectedBuf)"

definition validateRequest ::
  "(string \<Rightarrow> string \<Rightarrow> string) \<Rightarrow> hmac_authenticator \<Rightarrow> http_request \<Rightarrow> int
     \<Rightarrow> auth_result \<times> hmac_authenticator" where
  \<comment> \<open>\<open>hmac_sha256 key message\<close> is the hex digest that \<open>calculateHmac\<close> obtains from
      the crypto library; \<open>now\<close> is \<open>Date.now()\<close> during the call\<close>
  "validateRequest hmac_sha256 a req now =
     (case extractHeaders req of
        Inl err \<Rightarrow> (Invalid err, a)
      | Inr (authorization, timestamp, nonce) \<Rightarrow>
     (case parseAuthorizationHeader authorization of
        Inl err \<Rightarrow> (Invalid err, a)
      | Inr signature \<Rightarrow>
     (case validateTimestamp a timestamp now of
        Inl err \<Rightarrow> (Invalid err, a)
      | Inr _ \<Rightarrow>
     (case validateNonce a nonce timestamp now of
        (Inl err, a1) \<Rightarrow> (Invalid err, a1)
      | (Inr _, a1) \<Rightarrow>
          (let method = req_method req;
               path = (if req_path req \<noteq> [] then req_path req else req_url req);
               body = (case req_body req of None \<Rightarrow> [] | Some b \<Rightarrow> b);
               message = buildMessage method path timestamp nonce body;
               expectedSignature = hmac_sha256 (secret a1) message
           in if \<not> verifySignature signature expectedSignature
              then (Invalid invalid_signature, a1)
              else (Valid, a1\<lparr> nonceCache := cache_add (nonceCache a1) (JStr nonce) now \<rparr>))))))"

section \<open>TunnelAgent\<close>

text \<open>
  A tunnel socket and a \<open>createConnection\<close> callback are objects; the model names
  each by a number (its identity).  \<open>maxTcpSockets\<close> is whatever truthy value the
  options carry, taken to be a finite number: nothing in the code makes it a positive
  integer.  Besides the fields of the class, the state holds what the event loop
  keeps for the agent: the sockets that carry the \<open>once('close')\<close> handler of
  \<open>_onConnection\<close>, and the \<open>setTimeout(..., 0)\<close> hand-offs that have not run yet
  (timers of equal delay run in the order they were set).
\<close>

type_synonym socket = nat
type_synonym callback = nat

record tunnel_agent =
  availableSockets :: "socket list"
  waitingCreateConn :: "callback list"
  connectedSockets :: int
  maxTcpSockets :: number
  rejectedConnections :: nat
  agent_port :: "int option"
  started :: bool
  closed :: bool
  destroyed :: bool
  closeListeners :: "socket list"
  pendingHandoffs :: "(callback \<times> socket) list"

datatype agent_effect =
    Emit_online
  | Emit_offline
  | Emit_end
  | Call callback "string + socket"   \<comment> \<open>\<open>cb(new Error(msg))\<close> or \<open>cb(null, socket)\<close>\<close>
  | Socket_write socket string
  | Socket_end socket
  | Socket_destroy socket

definition DEFAULT_MAX_SOCKETS :: number where
  "DEFAULT_MAX_SOCKETS = 10"

definition new_TunnelAgent :: "number option \<Rightarrow> int option \<Rightarrow> tunnel_agent" where
  \<comment> \<open>\<open>new TunnelAgent({ clientId, maxTcpSockets, port })\<close>;
      \<open>options.maxTcpSockets || DEFAULT_MAX_SOCKETS\<close> replaces an absent value and 0\<close>
  "new_TunnelAgent opt_maxTcpSockets opt_port =
     \<lparr> availableSockets = [],
       waitingCreateConn = [],
       connectedSockets = 0,
       maxTcpSockets = (case opt_maxTcpSockets of
                          None \<Rightarrow> DEFAULT_MAX_SOCKETS
                        | Some n \<Rightarrow> if n = 0 then DEFAULT_MAX_SOCKETS else n),
       rejectedConnections = 0,
       agent_port = opt_port,
       started = False,
       closed = False,
       destroyed = False,
       closeListeners = [],
       pendingHandoffs = [] \<rparr>"

record agent_stats =
  stats_connectedSockets :: int
  stats_rejectedConnections :: nat
  stats_availableSockets :: nat
  stats_waitingRequests :: nat

definition agent_stats_of :: "tunnel_agent \<Rightarrow> agent_stats" where
  "agent_stats_of a =
     \<lparr> stats_connectedSockets = connectedSockets a,
       stats_rejectedConnections = rejectedConnections a,
       stats_availableSockets = length (availableSockets a),
       stats_waitingRequests = length (waitingCreateConn a) \<rparr>"

definition agent_listen :: "tunnel_agent \<Rightarrow> string + tunnel_agent" where
  \<comment> \<open>the synchronous part of \<open>listen()\<close>; the promise settles later\<close>
  "agent_listen a = (if started a then Inl ''already started'' else Inr (a\<lparr> started := True \<rparr>))"

definition agent_onClose :: "tunnel_agent \<Rightarrow> tunnel_agent \<times> agent_effect list" where
  "agent_onClose a =
     (a\<lparr> closed := True, waitingCreateConn := [] \<rparr>,
      map (\<lambda>conn. Call conn (Inl ''closed'')) (waitingCreateConn a) @ [Emit_end])"

definition too_many_payload :: "tunnel_agent \<Rightarrow> string" where
  \<comment> \<open>\<open>JSON.stringify({ error, code, max_sockets, current_sockets, available_sockets,
      waiting_requests })\<close>\<close>
  "too_many_payload a =
     ''{'' @ dquote @ ''error'' @ dquote @ '':'' @ dquote @ ''Too Many Connections'' @ dquote @
     '','' @ dquote @ ''code'' @ dquote @ '':429'' @
     '','' @ dquote @ ''max_sockets'' @ dquote @ '':'' @ number_toString (maxTcpSockets a) @
     '','' @ dquote @ ''current_sockets'' @ dquote @ '':'' @ show_int (connectedSockets a) @
     '','' @ dquote @ ''available_sockets'' @ dquote @ '':'' @ show_nat (length (availableSockets a)) @
     '','' @ dquote @ ''waiting_requests'' @ dquote @ '':'' @ show_nat (length (waitingCreateConn a)) @
     ''}''"

definition too_many_response :: "tunnel_agent \<Rightarrow> socket \<Rightarrow> agent_effect list" where
  "too_many_response a socket =
     (let payload = too_many_payload a in
      [ Socket_write socket (''HTTP/1.1 429 Too Many Connections'' @ CRLF),
        Socket_write socket (''Content-Type: application/json'' @ CRLF),
        Socket_write socket (''Content-Length: '' @ show_nat (length payload) @ CRLF),
        Socket_write socket (''X-LT-Max-Sockets: '' @ number_toString (maxTcpSockets a) @ CRLF),
        Socket_write socket (''X-LT-Current-Sockets: '' @ show_int (connectedSockets a) @ CRLF),
        Socket_write socket (''X-LT-Available-Sockets: '' @ show_nat (length (availableSockets a)) @ CRLF),
        Socket_write socket (''X-LT-Waiting-Requests: '' @ show_nat (length (waitingCreateConn a)) @ CRLF),
        Socket_write socket (''Connection: close'' @ CRLF),
        Socket_write socket CRLF,
        Socket_write socket payload,
        Socket_end socket ])"

definition agent_onConnection ::
  "tunnel_agent \<Rightarrow> socket \<Rightarrow> bool \<Rightarrow> tunnel_agent \<times> agent_effect list" where
  \<comment> \<open>\<open>write_throws\<close>: the socket throws at the first \<open>write\<close> of the rejection\<close>
  "agent_onConnection a socket write_throws =
     (if of_int (connectedSockets a) \<ge> maxTcpSockets a then
        (let a1 = a\<lparr> rejectedConnections := rejectedConnections a + 1 \<rparr>
         in (a1, if write_throws then [Socket_destroy socket] else too_many_response a1 socket))
      else
        (let a1 = a\<lparr> closeListeners := closeListeners a @ [socket] \<rparr>;
             online = (if connectedSockets a1 = 0 then [Emit_online] else []);
             a2 = a1\<lparr> connectedSockets := connectedSockets a1 + 1 \<rparr>
         in case waitingCreateConn a2 of
              fn # rest \<Rightarrow>
                (a2\<lparr> waitingCreateConn := rest,
                      pendingHandoffs := pendingHandoffs a2 @ [(fn, socket)] \<rparr>, online)
            | [] \<Rightarrow>
                (a2\<lparr> availableSockets := availableSockets a2 @ [socket] \<rparr>, online)))"

definition agent_socket_close :: "tunnel_agent \<Rightarrow> socket \<Rightarrow> tunnel_agent \<times> agent_effect list" where
  \<comment> \<open>the \<open>once('close')\<close> handler of an accepted socket\<close>
  "agent_socket_close a socket =
     (if socket \<in> set (closeListeners a) then
        (let a1 = a\<lparr> closeListeners := remove1 socket (closeListeners a),
                      connectedSockets := connectedSockets a - 1 \<rparr>;
             a2 = a1\<lparr> availableSockets := remove1 socket (availableSockets a1) \<rparr>
         in (a2, if connectedSockets a2 \<le> 0 then [Emit_offline] else []))
      else (a, []))"

definition agent_run_timeout :: "tunnel_agent \<Rightarrow> tunnel_agent \<times> agent_effect list" where
  \<comment> \<open>the oldest pending \<open>setTimeout(() => fn(null, socket), 0)\<close> runs\<close>
  "agent_run_timeout a =
     (case pendingHandoffs a of
        [] \<Rightarrow> (a, [])
      | (fn, socket) # rest \<Rightarrow> (a\<lparr> pendingHandoffs := rest \<rparr>, [Call fn (Inr socket)]))"

definition createConnection :: "tunnel_agent \<Rightarrow> callback \<Rightarrow> tunnel_agent \<times> agent_effect list" where
  "createConnection a cb =
     (if closed a then (a, [Call cb (Inl ''closed'')])
      else case availableSockets a of
             [] \<Rightarrow> (a\<lparr> waitingCreateConn := waitingCreateConn a @ [cb] \<rparr>, [])
           | sock # rest \<Rightarrow> (a\<lparr> availableSockets := rest \<rparr>, [Call cb (Inr sock)]))"

definition agent_destroy :: "tunnel_agent \<Rightarrow> tunnel_agent" where
  \<comment> \<open>\<open>this.server.close(); super.destroy()\<close>\<close>
  "agent_destroy a = a\<lparr> destroyed := True \<rparr>"

datatype agent_event =
    Connection socket bool
  | SocketClose socket
  | CreateConnection callback
  | ServerClose
  | Timeout0

fun agent_step :: "tunnel_agent \<Rightarrow> agent_event \<Rightarrow> tunnel_agent \<times> agent_effect list" where
  "agent_step a (Connection socket write_throws) = agent_onConnection a socket write_throws"
| "agent_step a (SocketClose socket) = agent_socket_close a socket"
| "agent_step a (CreateConnection cb) = createConnection a cb"
| "agent_step a ServerClose = agent_onClose a"
| "agent_step a Timeout0 = agent_run_timeout a"

fun agent_run :: "tunnel_agent \<Rightarrow> agent_event list \<Rightarrow> tunnel_agent" where
  "agent_run a [] = a"
| "agent_run a (ev # evs) = agent_run (fst (agent_step a ev)) evs"

fun agent_effects :: "tunnel_agent \<Rightarrow> agent_event list \<Rightarrow> agent_effect list" where
  "agent_effects a [] = []"
| "agent_effects a (ev # evs) = snd (agent_step a ev) @ agent_effects (fst (agent_step a ev)) evs"

text \<open>
  What a run does to the callbacks, read off the effects of its steps:
  \<open>socket_calls\<close> are the calls \<open>cb(null, socket)\<close> among some effects and
  \<open>error_calls\<close> the calls \<open>cb(new Error(...))\<close>.  A waiter is a callback that
  \<open>createConnection\<close> returned without calling.  \<open>queued_log\<close> lists the waiters of
  a run in the order of their \<open>createConnection\<close> calls, \<open>handed_log\<close> the calls with
  a socket that the timers of the run made, \<open>flushed_log\<close> the callbacks that the
  server's close called with an error, and \<open>matched_log\<close> the sockets whose
  connection was accepted while a callback was waiting.
\<close>

fun socket_calls :: "agent_effect list \<Rightarrow> (callback \<times> socket) list" where
  "socket_calls [] = []"
| "socket_calls (Call cb (Inr s) # es) = (cb, s) # socket_calls es"
| "socket_calls (e # es) = socket_calls es"

fun error_calls :: "agent_effect list \<Rightarrow> callback list" where
  "error_calls [] = []"
| "error_calls (Call cb (Inl msg) # es) = cb # error_calls es"
| "error_calls (e # es) = error_calls es"

fun queued_log :: "tunnel_agent \<Rightarrow> agent_event list \<Rightarrow> callback list" where
  "queued_log a [] = []"
| "queued_log a (ev # evs) =
     (case ev of
        CreateConnection cb \<Rightarrow>
          (if socket_calls (snd (agent_step a ev)) = [] \<and> error_calls (snd (agent_step a ev)) = []
           then [cb] else [])
      | _ \<Rightarrow> [])
     @ queued_log (fst (agent_step a ev)) evs"

fun handed_log :: "tunnel_agent \<Rightarrow> agent_event list \<Rightarrow> (callback \<times> socket) list" where
  "handed_log a [] = []"
| "handed_log a (ev # evs) =
     (case ev of
        Timeout0 \<Rightarrow> socket_calls (snd (agent_step a ev))
      | _ \<Rightarrow> [])
     @ handed_log (fst (agent_step a ev)) evs"

fun flushed_log :: "tunnel_agent \<Rightarrow> agent_event list \<Rightarrow> callback list" where
  "flushed_log a [] = []"
| "flushed_log a (ev # evs) =
     (case ev of
        ServerClose \<Rightarrow> error_calls (snd (agent_step a ev))
      | _ \<Rightarrow> [])
     @ flushed_log (fst (agent_step a ev)) evs"

fun matched_log :: "tunnel_agent \<Rightarrow> agent_event list \<Rightarrow> socket list" where
  "matched_log a [] = []"
| "matched_log a (ev # evs) =
     (case ev of
        Connection socket write_throws \<Rightarrow>
          (if connectedSockets (fst (agent_step a ev)) > connectedSockets a \<and>
              waitingCreateConn a \<noteq> []
           then [socket] else [])
      | _ \<Rightarrow> [])
     @ matched_log (fst (agent_step a ev)) evs"

section \<open>Client\<close>

text \<open>
  \<open>MAX_GRACE_PERIOD\<close> is fixed when the module is loaded; \<open>LT_GRACE_PERIOD\<close> and
  \<open>LT_IP_VALIDATION_STRICT\<close> are read from \<open>process.env\<close> at each use.
\<close>

record environment =
  MAX_GRACE_PERIOD :: int
  LT_GRACE_PERIOD :: "string option"
  LT_IP_VALIDATION_STRICT :: "string option"

definition getMaxGracePeriod :: "string option \<Rightarrow> int" where
  "getMaxGracePeriod envValue =
     (case envValue of
        None \<Rightarrow> 300000
      | Some v \<Rightarrow>
          if v = [] then 300000
          else (case parseInt v of
                  None \<Rightarrow> 300000
                | Some parsed \<Rightarrow> if parsed \<le> 0 then 300000 else parsed))"

definition DEFAULT_GRACE_PERIOD :: int where
  "DEFAULT_GRACE_PERIOD = 30000"

definition getGracePeriod :: "environment \<Rightarrow> int" where
  "getGracePeriod env =
     (case LT_GRACE_PERIOD env of
        None \<Rightarrow> DEFAULT_GRACE_PERIOD
      | Some v \<Rightarrow>
          if v = [] then DEFAULT_GRACE_PERIOD
          else (case parseInt v of
                  None \<Rightarrow> DEFAULT_GRACE_PERIOD
                | Some parsed \<Rightarrow>
                    if parsed < 0 then DEFAULT_GRACE_PERIOD
                    else if parsed > MAX_GRACE_PERIOD env then MAX_GRACE_PERIOD env
                    else parsed))"

record client_identifier =
  id_type :: string
  id_value :: "string option"

text \<open>
  \<open>graceTimeout\<close> holds the handle of a \<open>Timeout\<close> object.  The event loop's side of
  the client is part of the state: the armed timers (handle and due time), whether the
  constructor's \<open>setImmediate\<close> callback is still to run, whether the
  \<open>once('error')\<close> listener is still attached, and how many \<open>close\<close> events the
  client has emitted.
\<close>

record client =
  client_id :: string
  agent :: tunnel_agent
  isOnline :: bool
  originalIP :: "string option"
  the_identifier :: client_identifier   \<comment> \<open>the field \<open>identifier\<close>\<close>
  createdAt :: int
  graceTimeout :: "nat option"
  timers :: "(nat \<times> int) list"
  nextTimer :: nat
  immediatePending :: bool
  errorListener :: bool
  closeEmitted :: nat

definition new_Client ::
  "string \<Rightarrow> tunnel_agent \<Rightarrow> string option \<Rightarrow> client_identifier option \<Rightarrow> int \<Rightarrow> client" where
  \<comment> \<open>\<open>new Client({ id, agent, originalIP, identifier })\<close> at time \<open>now\<close>\<close>
  "new_Client i a ip ident now =
     (let oip = (case ip of None \<Rightarrow> None | Some v \<Rightarrow> if v = [] then None else Some v)
      in \<lparr> client_id = i,
           agent = a,
           isOnline = False,
           originalIP = oip,
           the_identifier = (case ident of
                           Some x \<Rightarrow> x
                         | None \<Rightarrow> \<lparr> id_type = ''ip'', id_value = oip \<rparr>),
           createdAt = now,
           graceTimeout = None,
           timers = [],
           nextTimer = 0,
           immediatePending = True,
           errorListener = True,
           closeEmitted = 0 \<rparr>)"

definition clearTimeout :: "client \<Rightarrow> nat \<Rightarrow> client" where
  "clearTimeout c h = c\<lparr> timers := filter (\<lambda>t. fst t \<noteq> h) (timers c) \<rparr>"

definition timeout_delay :: "int \<Rightarrow> int" where
  \<comment> \<open>Node runs a timer whose delay is outside \<open>1 .. 2^31 - 1\<close> after 1 ms\<close>
  "timeout_delay d = (if 1 \<le> d \<and> d \<le> 2147483647 then d else 1)"

definition clearGracePeriod :: "client \<Rightarrow> client" where
  "clearGracePeriod c =
     (case graceTimeout c of
        None \<Rightarrow> c
      | Some h \<Rightarrow> (clearTimeout c h)\<lparr> graceTimeout := None \<rparr>)"

definition setGracePeriod :: "environment \<Rightarrow> client \<Rightarrow> int \<Rightarrow> client" where
  "setGracePeriod env c now =
     (let gracePeriod = getGracePeriod env; h = nextTimer c
      in c\<lparr> timers := timers c @ [(h, now + timeout_delay gracePeriod)],
            nextTimer := h + 1,
            graceTimeout := Some h \<rparr>)"

definition hasAvailableSockets :: "client \<Rightarrow> bool" where
  "hasAvailableSockets c \<longleftrightarrow> length (availableSockets (agent c)) > 0"

definition getGracePeriodRemaining :: "environment \<Rightarrow> client \<Rightarrow> int \<Rightarrow> int" where
  "getGracePeriodRemaining env c now =
     (if graceTimeout c = None \<or> createdAt c = 0 then 0
      else (let elapsed = now - createdAt c;
                gracePeriod = getGracePeriod env
            in max 0 (gracePeriod - elapsed)))"

definition client_close :: "client \<Rightarrow> client" where
  \<comment> \<open>\<open>close()\<close>: \<open>_clearGracePeriod(); agent.destroy(); emit('close')\<close>\<close>
  "client_close c =
     (let c1 = clearGracePeriod c;
          c2 = c1\<lparr> agent := agent_destroy (agent c1) \<rparr>
      in c2\<lparr> closeEmitted := closeEmitted c2 + 1 \<rparr>)"

definition on_agent_online :: "client \<Rightarrow> client" where
  "on_agent_online c = clearGracePeriod (c\<lparr> isOnline := True \<rparr>)"

definition on_agent_offline :: "environment \<Rightarrow> client \<Rightarrow> int \<Rightarrow> client" where
  "on_agent_offline env c now = setGracePeriod env (clearGracePeriod (c\<lparr> isOnline := False \<rparr>)) now"

definition on_agent_error :: "client \<Rightarrow> client" where
  \<comment> \<open>\<open>agent.once('error', ...)\<close>\<close>
  "on_agent_error c =
     (if errorListener c then client_close (c\<lparr> errorListener := False \<rparr>) else c)"

definition run_immediate :: "environment \<Rightarrow> client \<Rightarrow> int \<Rightarrow> client" where
  \<comment> \<open>the constructor's \<open>setImmediate\<close> callback\<close>
  "run_immediate env c now =
     (if immediatePending c then
        (let c1 = c\<lparr> immediatePending := False \<rparr>
         in if \<not> isOnline c1 then setGracePeriod env c1 now else c1)
      else c)"

definition timer_due :: "client \<Rightarrow> nat \<Rightarrow> int option" where
  \<comment> \<open>when the armed timer \<open>h\<close> fires, if it is armed\<close>
  "timer_due c h = map_of (timers c) h"

definition timer_fires :: "client \<Rightarrow> nat \<Rightarrow> int \<Rightarrow> client" where
  \<comment> \<open>the event loop runs the callback of timer \<open>h\<close> at time \<open>now\<close>, when \<open>h\<close> is
      armed and due; the callback is \<open>this.close()\<close>\<close>
  "timer_fires c h now =
     (case timer_due c h of
        None \<Rightarrow> c
      | Some due \<Rightarrow> if now < due then c else client_close (clearTimeout c h))"

definition grace_timer_remaining :: "client \<Rightarrow> int \<Rightarrow> int option" where
  \<comment> \<open>milliseconds until the timer held in \<open>graceTimeout\<close> fires\<close>
  "grace_timer_remaining c now =
     (case graceTimeout c of
        None \<Rightarrow> None
      | Some h \<Rightarrow> (case timer_due c h of None \<Rightarrow> None | Some due \<Rightarrow> Some (due - now)))"

fun client_handle_effect :: "environment \<Rightarrow> int \<Rightarrow> client \<Rightarrow> agent_effect \<Rightarrow> client" where
  \<comment> \<open>the client's listeners on its agent\<close>
  "client_handle_effect env now c Emit_online = on_agent_online c"
| "client_handle_effect env now c Emit_offline = on_agent_offline env c now"
| "client_handle_effect env now c _ = c"

definition client_agent_event :: "environment \<Rightarrow> client \<Rightarrow> agent_event \<Rightarrow> int \<Rightarrow> client" where
  \<comment> \<open>an event of the client's agent, and the listeners that what it emits runs\<close>
  "client_agent_event env c aev now =
     (let r = agent_step (agent c) aev
      in foldl (client_handle_effect env now) (c\<lparr> agent := fst r \<rparr>) (snd r))"

datatype client_event =
    AgentEvent agent_event   \<comment> \<open>a connection, a socket close, ... on the client's agent\<close>
  | AgentOnline              \<comment> \<open>\<open>agent.emit('online')\<close>\<close>
  | AgentOffline             \<comment> \<open>\<open>agent.emit('offline')\<close>\<close>
  | AgentError               \<comment> \<open>\<open>agent.emit('error', err)\<close>\<close>
  | RunImmediate
  | TimerFires nat
  | CloseCall

fun client_step :: "environment \<Rightarrow> client \<Rightarrow> client_event \<times> int \<Rightarrow> client" where
  "client_step env c (AgentEvent aev, now) = client_agent_event env c aev now"
| "client_step env c (AgentOnline, now) = on_agent_online c"
| "client_step env c (AgentOffline, now) = on_agent_offline env c now"
| "client_step env c (AgentError, now) = on_agent_error c"
| "client_step env c (RunImmediate, now) = run_immediate env c now"
| "client_step env c (TimerFires h, now) = timer_fires c h now"
| "client_step env c (CloseCall, now) = client_close c"

fun client_run :: "environment \<Rightarrow> client \<Rightarrow> (client_event \<times> int) list \<Rightarrow> client" where
  "client_run env c [] = c"
| "client_run env c (e # es) = client_run env (client_step env c e) es"

section \<open>ClientManager\<close>

text \<open>
  The registry \<open>this.clients\<close> is made by \<open>new Map()\<close> and used as a plain object:
  \<open>clients[id] = client\<close> stores an entry, \<open>delete clients[id]\<close> removes it, and
  \<open>clients[id]\<close> reads it.  The field \<open>clients\<close> is the map of the stored entries.
  Where no entry is stored, \<open>clients[id]\<close> is the property of that name which the
  object inherits from \<open>Map.prototype\<close> and \<open>Object.prototype\<close>, if there is one:
  a function, or for \<open>__proto__\<close> the prototype object.  The inherited \<open>size\<close> is an
  accessor with a getter only: read, it is 0 (the entries are not entries of the
  \<open>Map\<close>), which is falsy like \<open>undefined\<close>; assigned to, in the strict code of a
  module, it throws a \<open>TypeError\<close> and stores nothing.  Ids made by \<open>hri.random()\<close>
  (adjective, animal, number) are none of these names.
  \<open>closed_clients\<close> records, in order, the clients on which the manager called
  \<open>close()\<close>, in the state that call left them.
\<close>

definition inherited_names :: "string list" where
  \<comment> \<open>the inherited properties of a \<open>Map\<close> object that have a string name and a truthy
      value (ECMAScript 2015 to 2024)\<close>
  "inherited_names =
     [''constructor'', ''clear'', ''delete'', ''entries'', ''forEach'', ''get'', ''has'',
      ''keys'', ''set'', ''values'',
      ''__defineGetter__'', ''__defineSetter__'', ''__lookupGetter__'', ''__lookupSetter__'',
      ''__proto__'', ''hasOwnProperty'', ''isPrototypeOf'', ''propertyIsEnumerable'',
      ''toLocaleString'', ''toString'', ''valueOf'']"

definition inherited_property :: "string \<Rightarrow> bool" where
  "inherited_property i \<longleftrightarrow> i \<in> set inherited_names"

definition getter_only_names :: "string list" where
  \<comment> \<open>the inherited accessor properties without a setter\<close>
  "getter_only_names = [''size'']"

definition getter_only_property :: "string \<Rightarrow> bool" where
  "getter_only_property i \<longleftrightarrow> i \<in> set getter_only_names"

record client_manager =
  max_tcp_sockets :: "number option"
  clients :: "string \<rightharpoonup> client"
  stats_tunnels :: int
  portRangeStart :: "int option"
  portRangeEnd :: "int option"
  availablePorts :: "int list"
  usedPorts :: "int set"
  closed_clients :: "client list"

definition truthy :: "int option \<Rightarrow> bool" where
  "truthy v \<longleftrightarrow> (case v of None \<Rightarrow> False | Some n \<Rightarrow> n \<noteq> 0)"

definition port_range_configured :: "client_manager \<Rightarrow> bool" where
  \<comment> \<open>\<open>this.portRangeStart && this.portRangeEnd\<close>\<close>
  "port_range_configured m \<longleftrightarrow> truthy (portRangeStart m) \<and> truthy (portRangeEnd m)"

definition new_ClientManager :: "number option \<Rightarrow> int option \<Rightarrow> int option \<Rightarrow> client_manager" where
  \<comment> \<open>\<open>new ClientManager({ max_tcp_sockets, portRangeStart, portRangeEnd })\<close>\<close>
  "new_ClientManager mts lo hi =
     \<lparr> max_tcp_sockets = mts,
       clients = Map.empty,
       stats_tunnels = 0,
       portRangeStart = lo,
       portRangeEnd = hi,
       availablePorts = (if truthy lo \<and> truthy hi then [the lo .. the hi] else []),
       usedPorts = {},
       closed_clients = [] \<rparr>"

datatype registry_value =
    Undefined           \<comment> \<open>\<open>undefined\<close>, or the 0 that \<open>size\<close> reads: falsy\<close>
  | Inherited           \<comment> \<open>an inherited property: no client\<close>
  | Registered client

definition registry_get :: "client_manager \<Rightarrow> string \<Rightarrow> registry_value" where
  \<comment> \<open>\<open>this.clients[id]\<close>\<close>
  "registry_get m i =
     (case clients m i of
        Some c \<Rightarrow> Registered c
      | None \<Rightarrow> if inherited_property i then Inherited else Undefined)"

datatype manager_error =
    No_available_ports                 \<comment> \<open>\<open>'No available ports in range'\<close>\<close>
  | Not_a_function                     \<comment> \<open>\<open>TypeError: existingClient.getGracePeriodRemaining is not a function\<close>\<close>
  | Cannot_set_property                \<comment> \<open>\<open>TypeError: Cannot set property size of #<Map> which has only a getter\<close>\<close>
  | Reserved string int                \<comment> \<open>\<open>'Subdomain "id" is reserved by another client. Try again in Ns ...'\<close>\<close>
  | Listen_failed string               \<comment> \<open>the error \<open>agent.listen()\<close> threw or rejected with\<close>

definition getPort :: "client_manager \<Rightarrow> manager_error + (int option \<times> client_manager)" where
  "getPort m =
     (case availablePorts m of
        [] \<Rightarrow> if port_range_configured m then Inl No_available_ports else Inr (None, m)
      | port # rest \<Rightarrow>
          Inr (Some port, m\<lparr> availablePorts := rest, usedPorts := insert port (usedPorts m) \<rparr>))"

definition releasePort :: "client_manager \<Rightarrow> int option \<Rightarrow> client_manager" where
  "releasePort m port =
     (if \<not> truthy port \<or> \<not> truthy (portRangeStart m) \<or> \<not> truthy (portRangeEnd m) then m
      else if the port \<in> usedPorts m then
        m\<lparr> usedPorts := usedPorts m - {the port},
            availablePorts := availablePorts m @ [the port] \<rparr>
      else m)"

definition removeClient :: "client_manager \<Rightarrow> string \<Rightarrow> client_manager" where
  \<comment> \<open>the \<open>close\<close> that \<open>client.close()\<close> emits runs the manager's listener, which calls
      \<open>removeClient(id)\<close> again and returns at once: the entry is already deleted\<close>
  "removeClient m i =
     (case registry_get m i of
        Undefined \<Rightarrow> m
      | Inherited \<Rightarrow> m   \<comment> \<open>\<open>client.agent.port\<close> throws a \<open>TypeError\<close>; nothing has changed\<close>
      | Registered c \<Rightarrow>
          (let m1 = releasePort m (agent_port (agent c));
               m2 = m1\<lparr> stats_tunnels := stats_tunnels m1 - 1 \<rparr>;
               m3 = m2\<lparr> clients := (clients m2)(i := None) \<rparr>
           in m3\<lparr> closed_clients := closed_clients m3 @ [client_close c] \<rparr>))"

definition hasClient :: "client_manager \<Rightarrow> string \<Rightarrow> bool" where
  "hasClient m i \<longleftrightarrow> registry_get m i \<noteq> Undefined"

definition getClient :: "client_manager \<Rightarrow> string \<Rightarrow> registry_value" where
  "getClient m i = registry_get m i"

record new_client_options =
  opt_ip :: "string option"
  opt_identifier :: "client_identifier option"

definition caller_identifier :: "new_client_options \<Rightarrow> client_identifier" where
  \<comment> \<open>\<open>options.identifier || { type: 'ip', value: requestIP }\<close>\<close>
  "caller_identifier options =
     (case opt_identifier options of
        Some x \<Rightarrow> x
      | None \<Rightarrow> \<lparr> id_type = ''ip'', id_value = opt_ip options \<rparr>)"

definition identifierMatch :: "client \<Rightarrow> client_identifier \<Rightarrow> bool" where
  "identifierMatch existingClient ident \<longleftrightarrow>
     id_type (the_identifier existingClient) = id_type ident \<and>
     id_value (the_identifier existingClient) = id_value ident"

definition strictMode :: "environment \<Rightarrow> bool" where
  "strictMode env \<longleftrightarrow> LT_IP_VALIDATION_STRICT env = Some ''true''"

definition newClient_resolve ::
  "environment \<Rightarrow> client_manager \<Rightarrow> string \<Rightarrow> new_client_options \<Rightarrow> string \<Rightarrow> int
     \<Rightarrow> (manager_error + string) \<times> client_manager" where
  \<comment> \<open>lines 74--162 of \<open>newClient\<close>: which id the new client gets.  \<open>random_id\<close> is what
      \<open>hri.random()\<close> returns when it is called.\<close>
  "newClient_resolve env m i options random_id now =
     (let requestIP = opt_ip options;
          ident = caller_identifier options
      in case registry_get m i of
           Undefined \<Rightarrow> (Inr i, m)
         | Inherited \<Rightarrow> (Inl Not_a_function, m)
             \<comment> \<open>line 95: \<open>existingClient.getGracePeriodRemaining()\<close>\<close>
         | Registered existingClient \<Rightarrow>
             if graceTimeout existingClient \<noteq> None \<and> \<not> isOnline existingClient then
               (if identifierMatch existingClient ident then (Inr i, removeClient m i)
                else if strictMode env then
                  (Inl (Reserved i (ceil_div_1000 (getGracePeriodRemaining env existingClient now))), m)
                else (Inr random_id, m))
             else
               (if identifierMatch existingClient ident then (Inr i, removeClient m i)
                else (Inr random_id, m)))"

definition newClient_begin ::
  "environment \<Rightarrow> client_manager \<Rightarrow> string \<Rightarrow> new_client_options \<Rightarrow> string \<Rightarrow> int
     \<Rightarrow> (manager_error + string) \<times> client_manager" where
  \<comment> \<open>\<open>newClient\<close> up to the \<open>await\<close>: the id is resolved, a port taken, agent and
      client built, the client stored under its id, and \<open>agent.listen()\<close> called.
      When \<open>clients[id] = client\<close> throws, the port stays taken and the new client is
      not registered: no listener of the manager is on it.\<close>
  "newClient_begin env m i options random_id now =
     (case newClient_resolve env m i options random_id now of
        (Inl err, m1) \<Rightarrow> (Inl err, m1)
      | (Inr i', m1) \<Rightarrow>
          (case getPort m1 of
             Inl err \<Rightarrow> (Inl err, m1)
           | Inr (port, m2) \<Rightarrow>
               (let requestIP = opt_ip options;
                    ident = caller_identifier options;
                    a = new_TunnelAgent (max_tcp_sockets m2) port;
                    c = new_Client i' a requestIP (Some ident) now;
                    m3 = m2\<lparr> clients := (clients m2)(i' \<mapsto> c) \<rparr>
                in if getter_only_property i' \<and> clients m2 i' = None then
                     (Inl Cannot_set_property, m2)
                   else case agent_listen a of
                     Inl msg \<Rightarrow> (Inl (Listen_failed msg), removeClient m3 i')
                   | Inr a' \<Rightarrow> (Inr i', m3\<lparr> clients := (clients m3)(i' \<mapsto> c\<lparr> agent := a' \<rparr>) \<rparr>))))"

datatype listen_outcome =
    Listening int          \<comment> \<open>the promise resolves with \<open>{ port }\<close>\<close>
  | Listen_rejected string \<comment> \<open>the promise rejects\<close>
  | Listen_pending         \<comment> \<open>the promise never settles\<close>

record client_info =
  info_id :: string
  info_port :: int
  info_max_conn_count :: "number option"

datatype new_client_result =
    Returned client_info
  | Thrown manager_error
  | Never_settles

definition newClient_finish ::
  "client_manager \<Rightarrow> string \<Rightarrow> listen_outcome \<Rightarrow> new_client_result \<times> client_manager" where
  \<comment> \<open>\<open>newClient\<close> from the \<open>await\<close> on\<close>
  "newClient_finish m i outcome =
     (case outcome of
        Listening port \<Rightarrow>
          (Returned \<lparr> info_id = i, info_port = port, info_max_conn_count = max_tcp_sockets m \<rparr>,
           m\<lparr> stats_tunnels := stats_tunnels m + 1 \<rparr>)
      | Listen_rejected msg \<Rightarrow> (Thrown (Listen_failed msg), removeClient m i)
      | Listen_pending \<Rightarrow> (Never_settles, m))"

definition newClient ::
  "environment \<Rightarrow> client_manager \<Rightarrow> string \<Rightarrow> new_client_options \<Rightarrow> string \<Rightarrow> int
     \<Rightarrow> listen_outcome \<Rightarrow> new_client_result \<times> client_manager" where
  \<comment> \<open>a call of \<open>newClient\<close> that no other event interleaves with\<close>
  "newClient env m i options random_id now outcome =
     (case newClient_begin env m i options random_id now of
        (Inl err, m1) \<Rightarrow> (Thrown err, m1)
      | (Inr i', m1) \<Rightarrow> newClient_finish m1 i' outcome)"

text \<open>
  What can happen to a manager: calls of \<open>newClient\<close> and \<open>removeClient\<close>, and the
  events of a registered client.  A call of \<open>newClient\<close> runs either in one piece or
  in its two halves, up to the \<open>await\<close> and from it on (for the id the first half
  resolved), with other operations in between.  A registered client that emits
  \<open>close\<close> runs the manager's \<open>once('close')\<close> listener, that is \<open>removeClient\<close>
  of its id.
\<close>

datatype manager_op =
    NewClient string new_client_options string int listen_outcome
  | NewClientBegin string new_client_options string int
  | NewClientFinish string listen_outcome
  | RemoveClient string
  | ClientEvent string client_event int

definition manager_client_event ::
  "environment \<Rightarrow> client_manager \<Rightarrow> string \<Rightarrow> client_event \<Rightarrow> int \<Rightarrow> client_manager" where
  "manager_client_event env m i ev now =
     (case clients m i of
        None \<Rightarrow> m
      | Some c \<Rightarrow>
          (let c' = client_step env c (ev, now);
               m1 = m\<lparr> clients := (clients m)(i \<mapsto> c') \<rparr>
           in if closeEmitted c' > closeEmitted c then removeClient m1 i else m1))"

fun manager_step :: "environment \<Rightarrow> client_manager \<Rightarrow> manager_op \<Rightarrow> client_manager" where
  "manager_step env m (NewClient i options random_id now outcome) =
     snd (newClient env m i options random_id now outcome)"
| "manager_step env m (NewClientBegin i options random_id now) =
     snd (newClient_begin env m i options random_id now)"
| "manager_step env m (NewClientFinish i outcome) = snd (newClient_finish m i outcome)"
| "manager_step env m (RemoveClient i) = removeClient m i"
| "manager_step env m (ClientEvent i ev now) = manager_client_event env m i ev now"

fun manager_run :: "environment \<Rightarrow> client_manager \<Rightarrow> manager_op list \<Rightarrow> client_manager" where
  "manager_run env m [] = m"
| "manager_run env m (op # ops) = manager_run env (manager_step env m op) ops"

section \<open>The two HTTP front-ends\<close>

datatype public_response =
    Respond int "string option" "(string \<times> string) list" string
      \<comment> \<open>status code, status message, headers set, body\<close>
  | Admin_callback
  | Handle_request string   \<comment> \<open>\<open>client.handleRequest(req, res)\<close> of the client with this id\<close>
  | Listener_throws         \<comment> \<open>\<open>TypeError: client.handleRequest is not a function\<close>, not caught\<close>

definition healthy_body :: string where
  "healthy_body = ''{'' @ dquote @ ''status'' @ dquote @ '':'' @ dquote @ ''healthy'' @ dquote @ ''}''"

definition nonempty :: "string option \<Rightarrow> string option" where
  \<comment> \<open>a string that may be undefined, \<open>None\<close> when it is falsy\<close>
  "nonempty v = (case v of None \<Rightarrow> None | Some x \<Rightarrow> if x = [] then None else Some x)"

definition public_on_request ::
  "int option \<Rightarrow> (string \<Rightarrow> string option) \<Rightarrow> environment \<Rightarrow> client_manager \<Rightarrow> int
     \<Rightarrow> http_request \<Rightarrow> public_response" where
  \<comment> \<open>\<open>server.on('request', ...)\<close>; \<open>opt_retryAfter\<close> is \<open>opt.retryAfter\<close> and
      \<open>getSubdomain\<close> is \<open>myTldjs.getSubdomain\<close>\<close>
  "public_on_request opt_retryAfter getSubdomain env manager now req =
     (let retryAfter = opt_or opt_retryAfter 5 in
      if req_url req = ''/healthz'' then
        Respond 200 None [(''Content-Type'', ''application/json'')] healthy_body
      else case nonempty (req_headers req ''host'') of
        None \<Rightarrow> Respond 400 None [] ''Host header is required''
      | Some hostname \<Rightarrow>
     (case nonempty (getSubdomain hostname) of
        None \<Rightarrow> Admin_callback
      | Some clientId \<Rightarrow>
     (case getClient manager clientId of
        Undefined \<Rightarrow> Respond 404 (Some ''Tunnel Not Found'') [] []
      | Inherited \<Rightarrow> Listener_throws
          \<comment> \<open>\<open>isOnline\<close> and \<open>graceTimeout\<close> are undefined on it, so cases 2 and 3 are passed\<close>
      | Registered c \<Rightarrow>
          if \<not> isOnline c \<and> graceTimeout c \<noteq> None then
            (let remaining = ceil_div_1000 (getGracePeriodRemaining env c now)
             in Respond 503 (Some ''Service Temporarily Unavailable'')
                  [(''Retry-After'', show_int remaining)] [])
          else if isOnline c \<and> \<not> hasAvailableSockets c then
            Respond 503 (Some ''Service Unavailable'') [(''Retry-After'', show_int retryAfter)] []
          else Handle_request clientId)))"

datatype admin_response =
    Unauthorized_401
  | Forbidden_403 string
  | Conflict_409 manager_error
  | Created_200 client_info
  | Error_thrown manager_error
  | No_response

definition requireHmacAuth ::
  "(string \<Rightarrow> string \<Rightarrow> string) \<Rightarrow> hmac_authenticator option \<Rightarrow> http_request \<Rightarrow> int
     \<Rightarrow> bool \<times> hmac_authenticator option" where
  \<comment> \<open>whether the middleware calls \<open>next()\<close>; otherwise it answers 401\<close>
  "requireHmacAuth hmac_sha256 hmacAuth req now =
     (case hmacAuth of
        None \<Rightarrow> (True, None)
      | Some a \<Rightarrow>
          (case validateRequest hmac_sha256 a req now of
             (Valid, a') \<Rightarrow> (True, Some a')
           | (Invalid err, a') \<Rightarrow> (False, Some a')))"

definition admin_get_id ::
  "(string \<Rightarrow> string \<Rightarrow> string) \<Rightarrow> hmac_authenticator option \<Rightarrow> environment \<Rightarrow> client_manager
     \<Rightarrow> http_request \<Rightarrow> string \<Rightarrow> new_client_options \<Rightarrow> string \<Rightarrow> int \<Rightarrow> listen_outcome
     \<Rightarrow> admin_response \<times> client_manager" where
  \<comment> \<open>\<open>adminRouter.get('/:id', requireHmacAuth, ...)\<close> with \<open>reqId = ctx.params.id\<close>;
      \<open>options\<close> is \<open>{ ip: clientIP, identifier }\<close> as read from the request\<close>
  "admin_get_id hmac_sha256 hmacAuth env manager req reqId options random_id now outcome =
     (if \<not> fst (requireHmacAuth hmac_sha256 hmacAuth req now) then (Unauthorized_401, manager)
      else if \<not> subdomain_regex_test reqId then (Forbidden_403 invalid_subdomain_msg, manager)
      else (case newClient env manager reqId options random_id now outcome of
              (Returned info, m') \<Rightarrow> (Created_200 info, m')
            | (Thrown (Reserved i n), m') \<Rightarrow> (Conflict_409 (Reserved i n), m')
            | (Thrown err, m') \<Rightarrow> (Error_thrown err, m')
            | (Never_settles, m') \<Rightarrow> (No_response, m')))"

section \<open>Invariants\<close>

definition queue_inv :: "tunnel_agent \<Rightarrow> bool" where
  \<comment> \<open>waiters and idle sockets exclude each other, and a closed agent has no waiter\<close>
  "queue_inv a \<longleftrightarrow>
     (waitingCreateConn a = [] \<or> availableSockets a = []) \<and>
     (waitingCreateConn a = [] \<or> \<not> closed a)"

text \<open>
  The port pool: when a range is configured, the available list has no duplicates and,
  with the used set, splits the range; without a range both are empty.  The registry:
  the port of every registered client is in the used set (and a client has no port only
  when no range is configured), two registered clients never hold the same port, and
  no client is stored under a name that cannot be assigned to.
\<close>

definition ports_partition :: "client_manager \<Rightarrow> bool" where
  "ports_partition m \<longleftrightarrow>
     (if port_range_configured m then
        distinct (availablePorts m) \<and> set (availablePorts m) \<inter> usedPorts m = {} \<and>
        set (availablePorts m) \<union> usedPorts m = {the (portRangeStart m) .. the (portRangeEnd m)}
      else availablePorts m = [] \<and> usedPorts m = {})"

definition registry_ports :: "client_manager \<Rightarrow> bool" where
  "registry_ports m \<longleftrightarrow>
     (\<forall>i c. clients m i = Some c \<longrightarrow>
        (\<forall>p. agent_port (agent c) = Some p \<longrightarrow> p \<in> usedPorts m) \<and>
        (agent_port (agent c) = None \<longrightarrow> \<not> port_range_configured m)) \<and>
     (\<forall>i j c d p. clients m i = Some c \<longrightarrow> clients m j = Some d \<longrightarrow> i \<noteq> j \<longrightarrow>
        agent_port (agent c) = Some p \<longrightarrow> agent_port (agent d) \<noteq> Some p)"

definition registry_keys :: "client_manager \<Rightarrow> bool" where
  "registry_keys m \<longleftrightarrow> (\<forall>i. getter_only_property i \<longrightarrow> clients m i = None)"

definition manager_inv :: "client_manager \<Rightarrow> bool" where
  "manager_inv m \<longleftrightarrow> ports_partition m \<and> registry_ports m \<and> registry_keys m"

section \<open>Concrete scenarios\<close>

text \<open>States and requests on which the theorems below are evaluated.\<close>

definition env0 :: environment where
  \<comment> \<open>no variable set\<close>
  "env0 = \<lparr> MAX_GRACE_PERIOD = getMaxGracePeriod None, LT_GRACE_PERIOD = None,
            LT_IP_VALIDATION_STRICT = None \<rparr>"

definition ip_options :: "string \<Rightarrow> new_client_options" where
  \<comment> \<open>what the admin routes pass for a request from this address without a client token\<close>
  "ip_options ip =
     \<lparr> opt_ip = Some ip, opt_identifier = Some \<lparr> id_type = ''ip'', id_value = Some ip \<rparr> \<rparr>"

definition offline_again :: client_manager where
  \<comment> \<open>tunnel \<open>myapp\<close> is created at 1000 ms, its first socket connects at 2000 ms and
      closes at 100000 ms\<close>
  "offline_again =
     manager_run env0 (new_ClientManager None None None)
       [ NewClient ''myapp'' (ip_options ''1.2.3.4'') ''clever-wombat-42'' 1000 (Listening 40000),
         ClientEvent ''myapp'' RunImmediate 1000,
         ClientEvent ''myapp'' (AgentEvent (Connection 1 False)) 2000,
         ClientEvent ''myapp'' (AgentEvent (SocketClose 1)) 100000 ]"

definition myapp_request :: http_request where
  "myapp_request =
     \<lparr> req_method = ''GET'', req_url = ''/'', req_path = ''/'',
       req_headers = [''host'' \<mapsto> ''myapp.example.com''], req_body = None \<rparr>"

definition healthz_request :: http_request where
  "healthz_request =
     \<lparr> req_method = ''GET'', req_url = ''/healthz'', req_path = ''/healthz'',
       req_headers = [''host'' \<mapsto> ''missing.example.com''], req_body = None \<rparr>"

definition first_label :: "string \<Rightarrow> string option" where
  \<comment> \<open>the subdomain of a host under \<open>example.com\<close>, as \<open>getSubdomain\<close> gives it for the
      hosts used here\<close>
  "first_label host = Some (takeWhile (\<lambda>c. c \<noteq> CHR ''.'') host)"

definition name64 :: string where
  "name64 = ''aaaaaaaaaaaaaaaaaaaaaaaaaaaaaaaaaaaaaaaaaaaaaaaaaaaaaaaaaaaaaaaa''"

definition demo_digest :: string where
  "demo_digest = ''9f86d081884c7d659a2feaa0c55ad015a3bf4f1b2b0b822cd15d6c15b0f00a08''"

definition demo_auth :: hmac_authenticator where
  "demo_auth = new_HmacAuthenticator ''test-secret-at-least-32-chars-long-12345'' None None None"

definition demo_req :: http_request where
  \<comment> \<open>a signed \<open>GET /hmac-valid\<close> whose nonce is written with a leading zero\<close>
  "demo_req =
     \<lparr> req_method = ''GET'', req_url = ''/hmac-valid'', req_path = ''/hmac-valid'',
       req_headers = [''authorization'' \<mapsto> ''HMAC sha256='' @ demo_digest,
                      ''x-timestamp'' \<mapsto> ''1700000000'',
                      ''x-nonce'' \<mapsto> ''01700000000000''],
       req_body = None \<rparr>"

definition fresh_client :: client where
  "fresh_client = new_Client ''test-explicit-close'' (new_TunnelAgent None None) None None 1000"

definition waiting_first_socket :: client_manager where
  \<comment> \<open>tunnel \<open>myapp\<close> is created at 1000 ms and no socket has connected yet\<close>
  "waiting_first_socket =
     manager_run env0 (new_ClientManager None None None)
       [ NewClient ''myapp'' (ip_options ''1.2.3.4'') ''clever-wombat-42'' 1000 (Listening 40000),
         ClientEvent ''myapp'' RunImmediate 1000 ]"

definition one_port_taken :: client_manager where
  \<comment> \<open>a pool of one port, held by tunnel \<open>myapp\<close> of 1.2.3.4, which has not connected\<close>
  "one_port_taken =
     manager_run env0 (new_ClientManager None (Some 10050) (Some 10050))
       [ NewClient ''myapp'' (ip_options ''1.2.3.4'') ''clever-wombat-42'' 1000 (Listening 10050),
         ClientEvent ''myapp'' RunImmediate 1000 ]"

definition two_ports_taken :: client_manager where
  "two_ports_taken =
     manager_run env0 (new_ClientManager None (Some 10040) (Some 10041))
       [ NewClient ''client1'' (ip_options ''1.2.3.4'') ''clever-wombat-42'' 1000 (Listening 10040),
         NewClient ''client2'' (ip_options ''1.2.3.4'') ''clever-wombat-42'' 1001 (Listening 10041) ]"

definition bad_port_range :: client_manager where
  \<comment> \<open>a range above the TCP ports: \<open>server.listen(70000)\<close> throws, \<open>listen()\<close> rejects\<close>
  "bad_port_range = new_ClientManager None (Some 70000) (Some 70001)"

section \<open>Properties\<close>

subsection \<open>Reading the registry\<close>

lemma registry_get_Registered [simp]:
  "clients m i = Some c \<Longrightarrow> registry_get m i = Registered c"
  by (simp add: registry_get_def)

lemma registry_get_Undefined [simp]:
  "clients m i = None \<Longrightarrow> \<not> inherited_property i \<Longrightarrow> registry_get m i = Undefined"
  by (simp add: registry_get_def)

lemma registry_get_Registered_iff:
  "registry_get m i = Registered c \<longleftrightarrow> clients m i = Some c"
  by (simp add: registry_get_def split: option.splits)

lemma removeClient_entry:
  "removeClient m i =
     (case clients m i of
        None \<Rightarrow> m
      | Some c \<Rightarrow>
          (let m1 = releasePort m (agent_port (agent c));
               m2 = m1\<lparr> stats_tunnels := stats_tunnels m1 - 1 \<rparr>;
               m3 = m2\<lparr> clients := (clients m2)(i := None) \<rparr>
           in m3\<lparr> closed_clients := closed_clients m3 @ [client_close c] \<rparr>))"
  by (simp add: removeClient_def registry_get_def split: option.splits)

lemma newClient_resolve_entry:
  "newClient_resolve env m i options random_id now =
     (case clients m i of
        None \<Rightarrow> if inherited_property i then (Inl Not_a_function, m) else (Inr i, m)
      | Some existingClient \<Rightarrow>
          if graceTimeout existingClient \<noteq> None \<and> \<not> isOnline existingClient then
            (if identifierMatch existingClient (caller_identifier options) then (Inr i, removeClient m i)
             else if strictMode env then
               (Inl (Reserved i (ceil_div_1000 (getGracePeriodRemaining env existingClient now))), m)
             else (Inr random_id, m))
          else
            (if identifierMatch existingClient (caller_identifier options) then (Inr i, removeClient m i)
             else (Inr random_id, m)))"
  by (simp add: newClient_resolve_def registry_get_def Let_def split: option.splits)

lemma subdomain_alt1_length: "subdomain_alt1 s \<Longrightarrow> 6 \<le> length s \<and> length s \<le> 65"
  by (cases s) (auto simp: subdomain_alt1_def)

lemma subdomain_regex_test_length:
  "subdomain_regex_test s \<Longrightarrow> 4 \<le> length s \<and> length s \<le> 65"
  using subdomain_alt1_length [of s]
  by (auto simp: subdomain_regex_test_def subdomain_alt2_def)

lemma admin_get_id_403_iff:
  assumes "fst (requireHmacAuth h auth req now)"
  shows "(\<exists>msg. fst (admin_get_id h auth env m req reqId opts rnd now outcome) = Forbidden_403 msg)
         \<longleftrightarrow> \<not> subdomain_regex_test reqId"
  using assms
  by (auto simp: admin_get_id_def split: prod.splits new_client_result.splits manager_error.splits)

text \<open>
  C3 (the code departs from the claim).  \<open>GET /:id\<close> answers 403 exactly when the regex
  rejects the id (\<open>admin_get_id_403_iff\<close>), and the regex accepts names of 4 to 65
  characters (\<open>subdomain_regex_test_length\<close>): its first alternative takes one character,
  4 to 63 more, and one last.  So a name of 64 lowercase letters is accepted and a
  tunnel is created for it, although the route is meant to stop at 63 characters; and
  the 4-character name \<open>a-bc\<close>, which has only lowercase alphanumerics and an internal
  hyphen, is refused with 403.
\<close>

theorem admin_get_id_accepts_64_characters:
  "length name64 = 64 \<and>
   fst (admin_get_id h None env (new_ClientManager mts None None) req name64 opts rnd now (Listening p))
     = Created_200 \<lparr> info_id = name64, info_port = p, info_max_conn_count = mts \<rparr> \<and>
   fst (admin_get_id h None env m req ''a-bc'' opts rnd now outcome)
     = Forbidden_403 invalid_subdomain_msg"
  by (simp add: name64_def admin_get_id_def requireHmacAuth_def subdomain_regex_test_def
      subdomain_alt1_def subdomain_alt2_def lower_alnum_def lower_alnum_hyphen_def newClient_def
      newClient_begin_def newClient_resolve_entry new_ClientManager_def getPort_def
      port_range_configured_def truthy_def agent_listen_def new_TunnelAgent_def
      newClient_finish_def inherited_property_def inherited_names_def getter_only_property_def
      getter_only_names_def Let_def)

subsection \<open>HMAC validation and the replay cache\<close>

lemma cache_has_False:
  "cache_has nc k now = (False, nc') \<Longrightarrow> cache nc' (toString k) = None \<and> ttl nc' = ttl nc"
  by (auto simp: cache_has_def Let_def split: option.splits if_splits)

lemma cache_has_True:
  "cache_has nc k now = (True, nc') \<Longrightarrow>
   nc' = nc \<and> (\<exists>e. cache nc (toString k) = Some e \<and> now < e)"
  by (auto simp: cache_has_def Let_def split: option.splits if_splits)

lemma cache_has_after_add_other:
  "toString k \<noteq> toString k' \<Longrightarrow> cache nc (toString k) = None \<Longrightarrow>
   cache_has (cache_add nc k' now) k now' = (False, cache_add nc k' now)"
  by (simp add: cache_has_def cache_add_def Let_def)

lemma validateRequest_Valid_parts:
  assumes "validateRequest h a req now = (Valid, a1)"
    and "extractHeaders req = Inr (authorization, timestamp, nonce)"
  obtains signature a0 where
    "parseAuthorizationHeader authorization = Inr signature"
    "validateTimestamp a timestamp now = Inr ()"
    "validateNonce a nonce timestamp now = (Inr (), a0)"
    "verifySignature signature
       (h (secret a0) (buildMessage (req_method req)
          (if req_path req \<noteq> [] then req_path req else req_url req) timestamp nonce
          (case req_body req of None \<Rightarrow> [] | Some b \<Rightarrow> b)))"
    "a1 = a0\<lparr> nonceCache := cache_add (nonceCache a0) (JStr nonce) now \<rparr>"
  using assms
  by (auto simp: validateRequest_def Let_def split: sum.splits prod.splits if_splits)

lemma validateNonce_ok_parts:
  assumes "validateNonce a nonce timestamp now = (Inr (), a0)"
  obtains n nc where
    "parseInt nonce = Some n"
    "\<not> (case parseInt timestamp of None \<Rightarrow> False | Some t \<Rightarrow> n < (t - nonceThreshold a) * 1000)"
    "\<not> (case parseInt timestamp of None \<Rightarrow> False | Some t \<Rightarrow> n > (t + timestampTolerance a) * 1000)"
    "cache_has (nonceCache a) (JNum n) now = (False, nc)"
    "a0 = a\<lparr> nonceCache := nc \<rparr>"
  using assms
  by (auto simp: validateNonce_def Let_def split: option.splits if_splits prod.splits bool.splits)

text \<open>
  What validation does guarantee: an accepted request carries a nonce that
  \<open>parseInt\<close> reads as a number inside the window around the (numeric, current)
  timestamp, and whose decimal form is not in the cache.
\<close>

lemma validateRequest_accepts_only_fresh_nonce_in_window:
  assumes "fst (validateRequest h a req now) = Valid"
  shows "\<exists>authorization timestamp nonce t n.
           extractHeaders req = Inr (authorization, timestamp, nonce) \<and>
           parseInt timestamp = Some t \<and> parseInt nonce = Some n \<and>
           (t - nonceThreshold a) * 1000 \<le> n \<and> n \<le> (t + timestampTolerance a) * 1000 \<and>
           \<not> fst (cache_has (nonceCache a) (JNum n) now)"
proof -
  obtain a1 where v: "validateRequest h a req now = (Valid, a1)"
    using assms by (cases "validateRequest h a req now") simp
  then obtain authorization timestamp nonce where
    hdr: "extractHeaders req = Inr (authorization, timestamp, nonce)"
    by (auto simp: validateRequest_def split: sum.splits prod.splits)
  show ?thesis
  proof (rule validateRequest_Valid_parts [OF v hdr])
    fix signature a0
    assume ts: "validateTimestamp a timestamp now = Inr ()"
      and vn: "validateNonce a nonce timestamp now = (Inr (), a0)"
    from ts obtain t where t: "parseInt timestamp = Some t"
      by (auto simp: validateTimestamp_def split: option.splits)
    show ?thesis
    proof (rule validateNonce_ok_parts [OF vn])
      fix n nc
      assume "parseInt nonce = Some n"
        and "\<not> (case parseInt timestamp of None \<Rightarrow> False
                 | Some t \<Rightarrow> n < (t - nonceThreshold a) * 1000)"
        and "\<not> (case parseInt timestamp of None \<Rightarrow> False
                 | Some t \<Rightarrow> n > (t + timestampTolerance a) * 1000)"
        and "cache_has (nonceCache a) (JNum n) now = (False, nc)"
      with hdr t show ?thesis by simp
    qed
  qed
qed

text \<open>A request that is not accepted adds no nonce to the cache.\<close>

lemma validateRequest_rejected_adds_nothing:
  assumes "validateRequest h a req now = (Invalid err, a1)"
  shows "cache (nonceCache a1) \<subseteq>\<^sub>m cache (nonceCache a)"
  using assms
  by (auto simp: validateRequest_def validateNonce_def cache_has_def Let_def map_le_def
      split: sum.splits prod.splits if_splits option.splits bool.splits)

text \<open>
  A nonce sent in canonical decimal form is remembered: while its cache entry lives, a
  second request with it is refused as a replay.
\<close>

lemma canonical_nonce_replay_detected:
  assumes first: "validateRequest h a req now = (Valid, a1)"
    and hdr: "extractHeaders req = Inr (authorization, timestamp, nonce)"
    and num: "parseInt nonce = Some n"
    and canon: "show_int n = nonce"
    and ts2: "validateTimestamp a timestamp now2 = Inr ()"
    and live: "now2 < now + ttl (nonceCache a)"
  shows "fst (validateRequest h a1 req now2) = Invalid replay_detected"
proof -
  from first hdr obtain signature a0 where
    sig: "parseAuthorizationHeader authorization = Inr signature"
    and vn: "validateNonce a nonce timestamp now = (Inr (), a0)"
    and a1: "a1 = a0\<lparr> nonceCache := cache_add (nonceCache a0) (JStr nonce) now \<rparr>"
    by (auto simp: validateRequest_def Let_def split: sum.splits prod.splits if_splits)
  from vn num obtain nc where
    old: "\<not> (case parseInt timestamp of None \<Rightarrow> False | Some t \<Rightarrow> n < (t - nonceThreshold a) * 1000)"
    and new: "\<not> (case parseInt timestamp of None \<Rightarrow> False | Some t \<Rightarrow> n > (t + timestampTolerance a) * 1000)"
    and has: "cache_has (nonceCache a) (JNum n) now = (False, nc)"
    and a0: "a0 = a\<lparr> nonceCache := nc \<rparr>"
    by (auto simp: validateNonce_def Let_def split: if_splits prod.splits bool.splits)
  from cache_has_False [OF has] have tt: "ttl nc = ttl (nonceCache a)" by simp
  have has2: "fst (cache_has (nonceCache a1) (JNum n) now2)"
    using canon live tt by (simp add: a1 a0 cache_has_def cache_add_def Let_def)
  have ts2': "validateTimestamp a1 timestamp now2 = Inr ()"
    using ts2 by (auto simp: validateTimestamp_def a1 a0 Let_def split: option.splits)
  have vn2: "fst (validateNonce a1 nonce timestamp now2) = Inl replay_detected"
    using old new has2 num
    by (cases "parseInt timestamp")
       (auto simp: validateNonce_def Let_def a1 a0 split: prod.splits bool.splits)
  show ?thesis
    using hdr sig ts2' vn2
    by (auto simp: validateRequest_def Let_def split: prod.splits sum.splits)
qed

text \<open>
  C7 (the code departs from the claim).  \<open>validateNonce\<close> looks the nonce up under the
  decimal form of the parsed number, while \<open>validateRequest\<close> stores it under the
  header string as sent.  When the two differ (a leading zero, a plus sign, trailing
  characters after the digits), the accepted nonce is never found again: the same
  request, sent a second time while its timestamp is still within tolerance, is
  accepted again instead of being refused as a replay.
\<close>

theorem replayed_request_validates_again:
  assumes first: "fst (validateRequest h a req now) = Valid"
    and hdr: "extractHeaders req = Inr (authorization, timestamp, nonce)"
    and num: "parseInt nonce = Some n"
    and noncanon: "show_int n \<noteq> nonce"
    and ts2: "validateTimestamp a timestamp now2 = Inr ()"
  shows "fst (validateRequest h (snd (validateRequest h a req now)) req now2) = Valid"
proof -
  define a1 where "a1 = snd (validateRequest h a req now)"
  have v: "validateRequest h a req now = (Valid, a1)"
    using first by (simp add: a1_def prod_eq_iff)
  from v hdr obtain signature a0 where
    sig: "parseAuthorizationHeader authorization = Inr signature"
    and vn: "validateNonce a nonce timestamp now = (Inr (), a0)"
    and ver: "verifySignature signature
               (h (secret a0) (buildMessage (req_method req)
                   (if req_path req \<noteq> [] then req_path req else req_url req) timestamp nonce
                   (case req_body req of None \<Rightarrow> [] | Some b \<Rightarrow> b)))"
    and a1: "a1 = a0\<lparr> nonceCache := cache_add (nonceCache a0) (JStr nonce) now \<rparr>"
    by (auto simp: validateRequest_def Let_def split: sum.splits prod.splits if_splits)
  from vn num obtain nc where
    old: "\<not> (case parseInt timestamp of None \<Rightarrow> False | Some t \<Rightarrow> n < (t - nonceThreshold a) * 1000)"
    and new: "\<not> (case parseInt timestamp of None \<Rightarrow> False | Some t \<Rightarrow> n > (t + timestampTolerance a) * 1000)"
    and has: "cache_has (nonceCache a) (JNum n) now = (False, nc)"
    and a0: "a0 = a\<lparr> nonceCache := nc \<rparr>"
    by (auto simp: validateNonce_def Let_def split: if_splits prod.splits bool.splits)
  from cache_has_False [OF has] have absent: "cache nc (show_int n) = None" by simp
  have has2: "cache_has (nonceCache a1) (JNum n) now2 = (False, nonceCache a1)"
    using cache_has_after_add_other [of "JNum n" "JStr nonce" nc now now2] absent noncanon
    by (simp add: a1 a0)
  have ts2': "validateTimestamp a1 timestamp now2 = Inr ()"
    using ts2 by (auto simp: validateTimestamp_def a1 a0 Let_def split: option.splits)
  have vn2: "validateNonce a1 nonce timestamp now2 = (Inr (), a1)"
    using old new has2 num
    by (cases "parseInt timestamp") (simp_all add: validateNonce_def Let_def a1 a0)
  have "fst (validateRequest h a1 req now2) = Valid"
    using hdr sig ts2' vn2 ver by (simp add: validateRequest_def Let_def a1 a0)
  then show ?thesis by (simp add: a1_def)
qed

lemma parseInt_demo_nonce: "parseInt ''01700000000000'' = Some 1700000000000"
  by (simp add: parseInt_def js_whitespace_def is_digit_def digits_value_def digit_val_def Let_def)

lemma parseInt_demo_timestamp: "parseInt ''1700000000'' = Some 1700000000"
  by (simp add: parseInt_def js_whitespace_def is_digit_def digits_value_def digit_val_def Let_def)

lemma show_int_demo_nonce: "show_int 1700000000000 = ''1700000000000''"
  by (simp add: show_int_def show_nat.simps digit_char_def)

lemma extractHeaders_demo_req:
  "extractHeaders demo_req =
     Inr (''HMAC sha256='' @ demo_digest, ''1700000000'', ''01700000000000'')"
  by (simp add: extractHeaders_def header2_def demo_req_def)

lemma validateTimestamp_demo:
  "validateTimestamp demo_auth ''1700000000'' 1700000030000 = Inr ()"
  by (simp add: validateTimestamp_def parseInt_demo_timestamp demo_auth_def
      new_HmacAuthenticator_def opt_or_def Let_def)

lemma demo_req_first_accepted:
  "fst (validateRequest (\<lambda>key message. demo_digest) demo_auth demo_req 1700000000000) = Valid"
  by (simp add: validateRequest_def extractHeaders_demo_req parseAuthorizationHeader_def
      to_lower_def js_whitespace_def is_hex_def validateTimestamp_def parseInt_demo_nonce
      parseInt_demo_timestamp validateNonce_def demo_auth_def new_HmacAuthenticator_def opt_or_def
      new_NonceCache_def cache_has_def show_int_demo_nonce verifySignature_def demo_digest_def
      Let_def)

theorem replayed_request_validates_again_witness:
  "fst (validateRequest (\<lambda>key message. demo_digest) demo_auth demo_req 1700000000000) = Valid \<and>
   fst (validateRequest (\<lambda>key message. demo_digest)
          (snd (validateRequest (\<lambda>key message. demo_digest) demo_auth demo_req 1700000000000))
          demo_req 1700000030000) = Valid"
  using replayed_request_validates_again
          [OF demo_req_first_accepted extractHeaders_demo_req parseInt_demo_nonce _
              validateTimestamp_demo]
        demo_req_first_accepted
  by (simp add: show_int_demo_nonce)

subsection \<open>TunnelAgent: the connection limit\<close>

lemmas agent_defs =
  agent_onConnection_def agent_socket_close_def createConnection_def agent_onClose_def
  agent_run_timeout_def new_TunnelAgent_def agent_listen_def agent_destroy_def
  DEFAULT_MAX_SOCKETS_def

lemma agent_step_maxTcpSockets [simp]:
  "maxTcpSockets (fst (agent_step a ev)) = maxTcpSockets a"
  by (cases ev)
     (auto simp: agent_onConnection_def agent_socket_close_def createConnection_def
        agent_onClose_def agent_run_timeout_def Let_def split: list.splits prod.splits)

lemma below_max_next:
  fixes N :: number
  assumes "\<not> N \<le> of_int c"
  shows "c + 1 \<le> max 0 \<lceil>N\<rceil>"
proof -
  from assms have "of_int c < N" by simp
  then have "c < \<lceil>N\<rceil>" by (simp add: less_ceiling_iff)
  then show ?thesis by simp
qed

lemma agent_onConnection_bound:
  assumes "connectedSockets a \<le> max 0 \<lceil>maxTcpSockets a\<rceil>"
  shows "connectedSockets (fst (agent_onConnection a socket w)) \<le> max 0 \<lceil>maxTcpSockets a\<rceil>"
proof (cases "maxTcpSockets a \<le> of_int (connectedSockets a)")
  case True
  with assms show ?thesis by (simp add: agent_onConnection_def Let_def)
next
  case False
  from below_max_next [OF False] False show ?thesis
    by (simp add: agent_onConnection_def Let_def split: list.splits)
qed

lemma agent_step_bound:
  assumes "connectedSockets a \<le> max 0 \<lceil>maxTcpSockets a\<rceil>"
  shows "connectedSockets (fst (agent_step a ev)) \<le> max 0 \<lceil>maxTcpSockets a\<rceil>"
proof (cases ev)
  case (Connection socket w)
  with agent_onConnection_bound [OF assms] show ?thesis by simp
next
  case (SocketClose socket)
  with assms show ?thesis by (simp add: agent_socket_close_def Let_def)
next
  case (CreateConnection cb)
  with assms show ?thesis by (simp add: createConnection_def split: list.splits)
next
  case ServerClose
  with assms show ?thesis by (simp add: agent_onClose_def)
next
  case Timeout0
  with assms show ?thesis by (simp add: agent_run_timeout_def split: list.splits prod.splits)
qed

lemma agent_run_maxTcpSockets [simp]:
  "maxTcpSockets (agent_run a evs) = maxTcpSockets a"
  by (induction evs arbitrary: a) simp_all

lemma agent_run_bound:
  "connectedSockets a \<le> max 0 \<lceil>maxTcpSockets a\<rceil> \<Longrightarrow>
   connectedSockets (agent_run a evs) \<le> max 0 \<lceil>maxTcpSockets a\<rceil>"
proof (induction evs arbitrary: a)
  case Nil
  then show ?case by simp
next
  case (Cons ev evs)
  from Cons.prems
  have "connectedSockets (fst (agent_step a ev))
          \<le> max 0 \<lceil>maxTcpSockets (fst (agent_step a ev))\<rceil>"
    using agent_step_bound [of a ev] by simp
  from Cons.IH [OF this] show ?case by simp
qed

lemma integer_max_bound:
  fixes N :: number
  assumes "c \<le> max 0 \<lceil>N\<rceil>" and "is_integer N" and "0 \<le> N"
  shows "of_int c \<le> N"
proof -
  from assms(2) have "\<lceil>N\<rceil> = \<lfloor>N\<rfloor>" by (simp add: is_integer_def)
  moreover from assms(3) have "0 \<le> \<lfloor>N\<rfloor>" by simp
  ultimately have "c \<le> \<lfloor>N\<rfloor>" using assms(1) by simp
  then show ?thesis by (simp add: le_floor_iff)
qed

lemma agent_onConnection_rejects:
  assumes "of_int (connectedSockets a) \<ge> maxTcpSockets a"
  shows "fst (agent_onConnection a socket write_throws)
           = a\<lparr> rejectedConnections := rejectedConnections a + 1 \<rparr>"
    and "snd (agent_onConnection a socket False) =
      [ Socket_write socket (''HTTP/1.1 429 Too Many Connections'' @ CRLF),
        Socket_write socket (''Content-Type: application/json'' @ CRLF),
        Socket_write socket (''Content-Length: '' @ show_nat (length (too_many_payload a)) @ CRLF),
        Socket_write socket (''X-LT-Max-Sockets: '' @ number_toString (maxTcpSockets a) @ CRLF),
        Socket_write socket (''X-LT-Current-Sockets: '' @ show_int (connectedSockets a) @ CRLF),
        Socket_write socket (''X-LT-Available-Sockets: '' @ show_nat (length (availableSockets a)) @ CRLF),
        Socket_write socket (''X-LT-Waiting-Requests: '' @ show_nat (length (waitingCreateConn a)) @ CRLF),
        Socket_write socket (''Connection: close'' @ CRLF),
        Socket_write socket CRLF,
        Socket_write socket (too_many_payload a),
        Socket_end socket ]"
    and "snd (agent_onConnection a socket True) = [Socket_destroy socket]"
  using assms
  by (simp_all add: agent_onConnection_def too_many_response_def too_many_payload_def Let_def)

text \<open>
  C4 (as the code has it).  The maximum \<open>N\<close> of a new agent is the number its options
  carry, or 10 when they carry none or 0.  Whatever connections, socket closes,
  \<open>createConnection\<close> calls, timer runs and server closes follow,
  \<open>connectedSockets\<close> stays at or below \<open>N\<close> rounded up (and 0 when that is
  negative), so at or below \<open>N\<close> when \<open>N\<close> is a non-negative integer.  A connection
  that arrives when \<open>connectedSockets \<ge> N\<close> changes nothing but the rejection
  counter, which goes up by one; a socket that takes the writes receives the 429
  status line, \<open>Content-Type\<close>, \<open>Content-Length\<close>, the four \<open>X-LT-*\<close> headers with
  the agent's current figures, \<open>Connection: close\<close>, and the JSON object with the
  members \<open>error\<close>, \<open>code\<close>, \<open>max_sockets\<close>, \<open>current_sockets\<close>,
  \<open>available_sockets\<close> and \<open>waiting_requests\<close>, and is ended; a socket that throws
  at the write is destroyed.
\<close>

theorem connectedSockets_never_exceeds_max:
  "maxTcpSockets (agent_run (new_TunnelAgent opt_max opt_port) evs)
     = (case opt_max of None \<Rightarrow> 10 | Some n \<Rightarrow> if n = 0 then 10 else n) \<and>
   connectedSockets (agent_run (new_TunnelAgent opt_max opt_port) evs)
     \<le> max 0 \<lceil>maxTcpSockets (agent_run (new_TunnelAgent opt_max opt_port) evs)\<rceil> \<and>
   (is_integer (maxTcpSockets (agent_run (new_TunnelAgent opt_max opt_port) evs)) \<and>
    0 \<le> maxTcpSockets (agent_run (new_TunnelAgent opt_max opt_port) evs) \<longrightarrow>
      of_int (connectedSockets (agent_run (new_TunnelAgent opt_max opt_port) evs))
        \<le> maxTcpSockets (agent_run (new_TunnelAgent opt_max opt_port) evs)) \<and>
   (of_int (connectedSockets (agent_run (new_TunnelAgent opt_max opt_port) evs))
      \<ge> maxTcpSockets (agent_run (new_TunnelAgent opt_max opt_port) evs) \<longrightarrow>
    (let a = agent_run (new_TunnelAgent opt_max opt_port) evs;
         r = agent_onConnection a socket False;
         body =
           ''{'' @ dquote @ ''error'' @ dquote @ '':'' @ dquote @ ''Too Many Connections'' @ dquote @
           '','' @ dquote @ ''code'' @ dquote @ '':429'' @
           '','' @ dquote @ ''max_sockets'' @ dquote @ '':'' @ number_toString (maxTcpSockets a) @
           '','' @ dquote @ ''current_sockets'' @ dquote @ '':'' @ show_int (connectedSockets a) @
           '','' @ dquote @ ''available_sockets'' @ dquote @ '':'' @
             show_nat (length (availableSockets a)) @
           '','' @ dquote @ ''waiting_requests'' @ dquote @ '':'' @
             show_nat (length (waitingCreateConn a)) @
           ''}''
     in fst r = a\<lparr> rejectedConnections := rejectedConnections a + 1 \<rparr> \<and>
        connectedSockets (fst r) = connectedSockets a \<and>
        snd r =
          [ Socket_write socket (''HTTP/1.1 429 Too Many Connections'' @ CRLF),
            Socket_write socket (''Content-Type: application/json'' @ CRLF),
            Socket_write socket (''Content-Length: '' @ show_nat (length body) @ CRLF),
            Socket_write socket (''X-LT-Max-Sockets: '' @ number_toString (maxTcpSockets a) @ CRLF),
            Socket_write socket (''X-LT-Current-Sockets: '' @ show_int (connectedSockets a) @ CRLF),
            Socket_write socket (''X-LT-Available-Sockets: '' @ show_nat (length (availableSockets a)) @ CRLF),
            Socket_write socket (''X-LT-Waiting-Requests: '' @ show_nat (length (waitingCreateConn a)) @ CRLF),
            Socket_write socket (''Connection: close'' @ CRLF),
            Socket_write socket CRLF,
            Socket_write socket body,
            Socket_end socket ] \<and>
        agent_onConnection a socket True
          = (a\<lparr> rejectedConnections := rejectedConnections a + 1 \<rparr>, [Socket_destroy socket])))"
proof -
  let ?a = "agent_run (new_TunnelAgent opt_max opt_port) evs"
  have N: "maxTcpSockets ?a = (case opt_max of None \<Rightarrow> 10 | Some n \<Rightarrow> if n = 0 then 10 else n)"
    by (simp add: new_TunnelAgent_def DEFAULT_MAX_SOCKETS_def split: option.splits)
  have "connectedSockets (new_TunnelAgent opt_max opt_port)
          \<le> max 0 \<lceil>maxTcpSockets (new_TunnelAgent opt_max opt_port)\<rceil>"
    by (simp add: new_TunnelAgent_def)
  from agent_run_bound [OF this, of evs]
  have bound: "connectedSockets ?a \<le> max 0 \<lceil>maxTcpSockets ?a\<rceil>" by simp
  have int_bound: "of_int (connectedSockets ?a) \<le> maxTcpSockets ?a"
    if "is_integer (maxTcpSockets ?a) \<and> 0 \<le> maxTcpSockets ?a"
    using integer_max_bound [OF bound] that by simp
  have rej: "(let a = ?a; r = agent_onConnection a socket False;
         body =
           ''{'' @ dquote @ ''error'' @ dquote @ '':'' @ dquote @ ''Too Many Connections'' @ dquote @
           '','' @ dquote @ ''code'' @ dquote @ '':429'' @
           '','' @ dquote @ ''max_sockets'' @ dquote @ '':'' @ number_toString (maxTcpSockets a) @
           '','' @ dquote @ ''current_sockets'' @ dquote @ '':'' @ show_int (connectedSockets a) @
           '','' @ dquote @ ''available_sockets'' @ dquote @ '':'' @
             show_nat (length (availableSockets a)) @
           '','' @ dquote @ ''waiting_requests'' @ dquote @ '':'' @
             show_nat (length (waitingCreateConn a)) @
           ''}''
     in fst r = a\<lparr> rejectedConnections := rejectedConnections a + 1 \<rparr> \<and>
        connectedSockets (fst r) = connectedSockets a \<and>
        snd r =
          [ Socket_write socket (''HTTP/1.1 429 Too Many Connections'' @ CRLF),
            Socket_write socket (''Content-Type: application/json'' @ CRLF),
            Socket_write socket (''Content-Length: '' @ show_nat (length body) @ CRLF),
            Socket_write socket (''X-LT-Max-Sockets: '' @ number_toString (maxTcpSockets a) @ CRLF),
            Socket_write socket (''X-LT-Current-Sockets: '' @ show_int (connectedSockets a) @ CRLF),
            Socket_write socket (''X-LT-Available-Sockets: '' @ show_nat (length (availableSockets a)) @ CRLF),
            Socket_write socket (''X-LT-Waiting-Requests: '' @ show_nat (length (waitingCreateConn a)) @ CRLF),
            Socket_write socket (''Connection: close'' @ CRLF),
            Socket_write socket CRLF,
            Socket_write socket body,
            Socket_end socket ] \<and>
        agent_onConnection a socket True
          = (a\<lparr> rejectedConnections := rejectedConnections a + 1 \<rparr>, [Socket_destroy socket]))"
    if "of_int (connectedSockets ?a) \<ge> maxTcpSockets ?a"
    using agent_onConnection_rejects [OF that, of socket]
    unfolding Let_def too_many_payload_def
    by (simp add: prod_eq_iff)
  from N bound int_bound rej show ?thesis by blast
qed

theorem connectedSockets_never_exceeds_max_witness:
  "connectedSockets (agent_run (new_TunnelAgent (Some 1) None) [Connection 7 False]) = 1 \<and>
   maxTcpSockets (agent_run (new_TunnelAgent (Some 1) None) [Connection 7 False]) = 1 \<and>
   connectedSockets (fst (agent_onConnection
       (agent_run (new_TunnelAgent (Some 1) None) [Connection 7 False]) 8 False)) = 1 \<and>
   rejectedConnections (fst (agent_onConnection
       (agent_run (new_TunnelAgent (Some 1) None) [Connection 7 False]) 8 False)) = 1 \<and>
   snd (agent_onConnection (agent_run (new_TunnelAgent (Some 1) None) [Connection 7 False]) 8 False)
     = [ Socket_write 8 (''HTTP/1.1 429 Too Many Connections'' @ CRLF),
         Socket_write 8 (''Content-Type: application/json'' @ CRLF),
         Socket_write 8 (''Content-Length: 122'' @ CRLF),
         Socket_write 8 (''X-LT-Max-Sockets: 1'' @ CRLF),
         Socket_write 8 (''X-LT-Current-Sockets: 1'' @ CRLF),
         Socket_write 8 (''X-LT-Available-Sockets: 1'' @ CRLF),
         Socket_write 8 (''X-LT-Waiting-Requests: 0'' @ CRLF),
         Socket_write 8 (''Connection: close'' @ CRLF),
         Socket_write 8 CRLF,
         Socket_write 8
           (''{'' @ dquote @ ''error'' @ dquote @ '':'' @ dquote @ ''Too Many Connections'' @ dquote @
            '','' @ dquote @ ''code'' @ dquote @ '':429,'' @ dquote @ ''max_sockets'' @ dquote @
            '':1,'' @ dquote @ ''current_sockets'' @ dquote @ '':1,'' @ dquote @
            ''available_sockets'' @ dquote @ '':1,'' @ dquote @ ''waiting_requests'' @ dquote @
            '':0}''),
         Socket_end 8 ]"
proof -
  have n: "number_toString 1 = ''1''" "show_int 1 = ''1''" "show_nat (Suc 0) = ''1''"
    "show_nat 0 = ''0''" "show_nat 122 = ''122''"
    by (simp_all add: number_toString_def is_integer_def show_int_def show_nat.simps digit_char_def)
  have payload: "too_many_payload (agent_run (new_TunnelAgent (Some 1) None) [Connection 7 False])
      = (''{'' @ dquote @ ''error'' @ dquote @ '':'' @ dquote @ ''Too Many Connections'' @ dquote @
            '','' @ dquote @ ''code'' @ dquote @ '':429,'' @ dquote @ ''max_sockets'' @ dquote @
            '':1,'' @ dquote @ ''current_sockets'' @ dquote @ '':1,'' @ dquote @
            ''available_sockets'' @ dquote @ '':1,'' @ dquote @ ''waiting_requests'' @ dquote @
            '':0}'')"
    by (simp add: too_many_payload_def agent_defs Let_def n)
  have len: "length
           (''{'' @ dquote @ ''error'' @ dquote @ '':'' @ dquote @ ''Too Many Connections'' @ dquote @
            '','' @ dquote @ ''code'' @ dquote @ '':429,'' @ dquote @ ''max_sockets'' @ dquote @
            '':1,'' @ dquote @ ''current_sockets'' @ dquote @ '':1,'' @ dquote @
            ''available_sockets'' @ dquote @ '':1,'' @ dquote @ ''waiting_requests'' @ dquote @
            '':0}'') = 122"
    by (simp add: dquote_def)
  note T = connectedSockets_never_exceeds_max
    [of "Some 1" None "[Connection 7 False]" 8, unfolded Let_def, folded too_many_payload_def]
  from T show ?thesis
    unfolding payload len by (simp add: agent_defs Let_def n)
qed

lemma fraction_digits_unfold:
  "fraction_digits n r =
     (if n = 0 \<or> r = 0 then []
      else digit_char (nat \<lfloor>10 * r\<rfloor>) # fraction_digits (n - 1) (10 * r - of_int \<lfloor>10 * r\<rfloor>))"
  by (cases n) simp_all

lemma number_toString_two_and_a_half: "number_toString (5 / 2) = ''2.5''"
proof -
  have "fraction_digits 17 (1 / 2) = digit_char 5 # fraction_digits 16 0"
    by (subst fraction_digits_unfold) simp
  also have "fraction_digits 16 0 = []"
    by (subst fraction_digits_unfold) simp
  finally have "fraction_digits 17 (1 / 2) = ''5''" by (simp add: digit_char_def)
  then show ?thesis
    by (simp add: number_toString_def is_integer_def show_nat.simps digit_char_def)
qed

text \<open>
  With the maximum 2.5, three connections are accepted and the fourth is rejected:
  \<open>connectedSockets\<close> is 3, above the maximum.  With the maximum \<open>-1\<close> no connection
  is accepted, and the count 0 is above the maximum.
\<close>

theorem connectedSockets_exceeds_fractional_max:
  "maxTcpSockets (agent_run (new_TunnelAgent (Some (5 / 2)) None)
      [Connection 1 False, Connection 2 False, Connection 3 False]) = 5 / 2 \<and>
   connectedSockets (agent_run (new_TunnelAgent (Some (5 / 2)) None)
      [Connection 1 False, Connection 2 False, Connection 3 False]) = 3 \<and>
   \<not> of_int (connectedSockets (agent_run (new_TunnelAgent (Some (5 / 2)) None)
      [Connection 1 False, Connection 2 False, Connection 3 False]))
     \<le> maxTcpSockets (agent_run (new_TunnelAgent (Some (5 / 2)) None)
      [Connection 1 False, Connection 2 False, Connection 3 False]) \<and>
   connectedSockets (agent_run (new_TunnelAgent (Some (5 / 2)) None)
      [Connection 1 False, Connection 2 False, Connection 3 False, Connection 4 False]) = 3 \<and>
   maxTcpSockets (new_TunnelAgent (Some (- 1)) None) = - 1 \<and>
   connectedSockets (agent_run (new_TunnelAgent (Some (- 1)) None) [Connection 1 False]) = 0 \<and>
   \<not> of_int (connectedSockets (agent_run (new_TunnelAgent (Some (- 1)) None) [Connection 1 False]))
     \<le> maxTcpSockets (agent_run (new_TunnelAgent (Some (- 1)) None) [Connection 1 False])"
  by (simp add: agent_defs Let_def)

subsection \<open>TunnelAgent: waiters and idle sockets\<close>

lemma queue_inv_step: "queue_inv a \<Longrightarrow> queue_inv (fst (agent_step a ev))"
  by (cases ev)
     (auto simp: queue_inv_def agent_onConnection_def agent_socket_close_def createConnection_def
        agent_onClose_def agent_run_timeout_def Let_def split: list.splits prod.splits)

lemma queue_inv_run: "queue_inv a \<Longrightarrow> queue_inv (agent_run a evs)"
  by (induction evs arbitrary: a) (simp_all add: queue_inv_step)

lemma error_calls_flush:
  "error_calls (map (\<lambda>conn. Call conn (Inl msg)) ws @ [Emit_end]) = ws"
  by (induction ws) simp_all

lemma socket_calls_flush:
  "socket_calls (map (\<lambda>conn. Call conn (Inl msg)) ws @ [Emit_end]) = []"
  by (induction ws) simp_all

lemma closed_step:
  "closed a \<Longrightarrow> waitingCreateConn a = [] \<Longrightarrow>
   closed (fst (agent_step a ev)) \<and> waitingCreateConn (fst (agent_step a ev)) = []"
  by (cases ev)
     (auto simp: agent_onConnection_def agent_socket_close_def createConnection_def
        agent_onClose_def agent_run_timeout_def Let_def split: list.splits prod.splits)

lemma closed_quiet:
  "closed a \<Longrightarrow> waitingCreateConn a = [] \<Longrightarrow>
   queued_log a evs = [] \<and> flushed_log a evs = [] \<and> waitingCreateConn (agent_run a evs) = []"
proof (induction evs arbitrary: a)
  case Nil
  then show ?case by simp
next
  case (Cons ev evs)
  from closed_step [OF Cons.prems, of ev] Cons.IH [of "fst (agent_step a ev)"]
  have "queued_log (fst (agent_step a ev)) evs = [] \<and>
        flushed_log (fst (agent_step a ev)) evs = [] \<and>
        waitingCreateConn (agent_run (fst (agent_step a ev)) evs) = []"
    by blast
  with Cons.prems show ?case
    by (cases ev) (simp_all add: createConnection_def agent_onClose_def)
qed

text \<open>
  The order of the queue, from any state in which \<open>queue_inv\<close> holds: the callbacks
  already taken off the queue and not yet called, then the waiting ones, then those
  queued later, are the ones that timers call with a socket, then the ones taken off
  and not yet called, then the ones that a close calls with an error, then the ones
  still waiting.
\<close>

lemma waiters_fifo_from:
  "queue_inv a \<Longrightarrow>
   map fst (pendingHandoffs a) @ waitingCreateConn a @ queued_log a evs =
   map fst (handed_log a evs) @ map fst (pendingHandoffs (agent_run a evs)) @ flushed_log a evs @
   waitingCreateConn (agent_run a evs)"
proof (induction evs arbitrary: a)
  case Nil
  then show ?case by simp
next
  case (Cons ev evs)
  let ?a1 = "fst (agent_step a ev)"
  have inv1: "queue_inv ?a1" using Cons.prems by (rule queue_inv_step)
  note IH = Cons.IH [OF inv1]
  show ?case
  proof (cases ev)
    case (Connection s wt)
    then show ?thesis using IH
      by (auto simp: agent_onConnection_def Let_def split: list.splits if_splits)
  next
    case (SocketClose s)
    then show ?thesis using IH
      by (auto simp: agent_socket_close_def Let_def split: if_splits)
  next
    case (CreateConnection cb)
    then show ?thesis using IH
      by (auto simp: createConnection_def split: list.splits if_splits)
  next
    case ServerClose
    have c: "closed ?a1" "waitingCreateConn ?a1 = []"
      using ServerClose by (simp_all add: agent_onClose_def)
    from closed_quiet [OF c, of evs] IH ServerClose show ?thesis
      by (simp add: agent_onClose_def error_calls_flush)
  next
    case Timeout0
    then show ?thesis using IH
      by (auto simp: agent_run_timeout_def split: list.splits prod.splits)
  qed
qed

text \<open>
  The sockets of the hand-offs: those of the pending hand-offs, then the sockets
  accepted while a callback waits, are the sockets that the timers pass to callbacks,
  then those of the hand-offs still pending.
\<close>

lemma sockets_fifo_from:
  "map snd (pendingHandoffs a) @ matched_log a evs =
   map snd (handed_log a evs) @ map snd (pendingHandoffs (agent_run a evs))"
proof (induction evs arbitrary: a)
  case Nil
  then show ?case by simp
next
  case (Cons ev evs)
  note IH = Cons.IH [of "fst (agent_step a ev)"]
  show ?case
  proof (cases ev)
    case (Connection s wt)
    show ?thesis
    proof (cases "maxTcpSockets a \<le> of_int (connectedSockets a)")
      case True
      with Connection IH show ?thesis
        by (simp add: agent_onConnection_def Let_def)
    next
      case False
      with Connection IH show ?thesis
        by (cases "waitingCreateConn a") (simp_all add: agent_onConnection_def Let_def)
    qed
  next
    case (SocketClose s)
    with IH show ?thesis
      by (cases "s \<in> set (closeListeners a)") (simp_all add: agent_socket_close_def Let_def)
  next
    case (CreateConnection cb)
    with IH show ?thesis
      by (cases "closed a"; cases "availableSockets a") (simp_all add: createConnection_def)
  next
    case ServerClose
    with IH show ?thesis by (simp add: agent_onClose_def)
  next
    case Timeout0
    with IH show ?thesis
      by (cases "pendingHandoffs a") (auto simp: agent_run_timeout_def)
  qed
qed

lemma zip_prefix_pairs:
  "zip (map fst ps @ rest) (map snd ps) = ps"
  by (induction ps) auto

lemma socket_calls_append:
  "socket_calls (xs @ ys) = socket_calls xs @ socket_calls ys"
  by (induction xs rule: socket_calls.induct) simp_all

lemma handed_calls_in_effects:
  "subseq (handed_log a evs) (socket_calls (agent_effects a evs))"
proof (induction evs arbitrary: a)
  case Nil
  then show ?case by simp
next
  case (Cons ev evs)
  note IH = Cons.IH [of "fst (agent_step a ev)"]
  show ?case
  proof (cases "ev = Timeout0")
    case True
    with IH show ?thesis
      by (simp add: socket_calls_append list_emb_append_mono)
  next
    case False
    then have "handed_log a (ev # evs) = handed_log (fst (agent_step a ev)) evs"
      by (cases ev) simp_all
    with IH show ?thesis
      by (simp add: socket_calls_append list_emb_append2)
  qed
qed

lemma queue_inv_new: "queue_inv (new_TunnelAgent opt_max opt_port)"
  by (simp add: queue_inv_def new_TunnelAgent_def)

text \<open>
  C5.  In every state a new agent can reach, a non-empty waiter queue means an empty
  idle pool.  The waiters of a run, in the order of their \<open>createConnection\<close> calls,
  are: those that a timer has called with a socket, in the order of those calls (which
  are among the effects of the run, in that order); then those taken off the queue
  whose call is still pending; then those that the server's
  close called with an error; then those still waiting.  The sockets they are called
  with are the sockets accepted while a callback waited, in the order of acceptance:
  the k-th waiter is paired with the k-th such socket.  In any state: an accepted
  connection that finds a waiter takes the head of the queue and schedules its call
  with the new socket, leaving the pool as it was; the timer that runs calls the
  oldest scheduled pair; and \<open>createConnection\<close> on an open agent calls back at once
  with the oldest idle socket when there is one, queuing nothing, and queues the
  callback at the end when there is none.
\<close>

theorem waiters_exclude_idle_sockets_and_fifo:
  "(waitingCreateConn (agent_run (new_TunnelAgent opt_max opt_port) evs) \<noteq> [] \<longrightarrow>
      availableSockets (agent_run (new_TunnelAgent opt_max opt_port) evs) = []) \<and>
   queued_log (new_TunnelAgent opt_max opt_port) evs =
     map fst (handed_log (new_TunnelAgent opt_max opt_port) evs) @
     map fst (pendingHandoffs (agent_run (new_TunnelAgent opt_max opt_port) evs)) @
     flushed_log (new_TunnelAgent opt_max opt_port) evs @
     waitingCreateConn (agent_run (new_TunnelAgent opt_max opt_port) evs) \<and>
   handed_log (new_TunnelAgent opt_max opt_port) evs @
     pendingHandoffs (agent_run (new_TunnelAgent opt_max opt_port) evs)
     = zip (queued_log (new_TunnelAgent opt_max opt_port) evs)
           (matched_log (new_TunnelAgent opt_max opt_port) evs) \<and>
   subseq (handed_log (new_TunnelAgent opt_max opt_port) evs)
     (socket_calls (agent_effects (new_TunnelAgent opt_max opt_port) evs)) \<and>
   (of_int (connectedSockets a) < maxTcpSockets a \<and> waitingCreateConn a = fn # rest \<longrightarrow>
      waitingCreateConn (fst (agent_onConnection a socket w)) = rest \<and>
      pendingHandoffs (fst (agent_onConnection a socket w)) = pendingHandoffs a @ [(fn, socket)] \<and>
      availableSockets (fst (agent_onConnection a socket w)) = availableSockets a) \<and>
   (pendingHandoffs a = (fn, socket) # pending \<longrightarrow>
      agent_step a Timeout0 = (a\<lparr> pendingHandoffs := pending \<rparr>, [Call fn (Inr socket)])) \<and>
   (\<not> closed a \<and> availableSockets a = sock # socks \<longrightarrow>
      createConnection a cb = (a\<lparr> availableSockets := socks \<rparr>, [Call cb (Inr sock)])) \<and>
   (\<not> closed a \<and> availableSockets a = [] \<longrightarrow>
      createConnection a cb = (a\<lparr> waitingCreateConn := waitingCreateConn a @ [cb] \<rparr>, []))"
proof -
  let ?a0 = "new_TunnelAgent opt_max opt_port"
  have "queue_inv (agent_run ?a0 evs)"
    by (rule queue_inv_run) (rule queue_inv_new)
  then have excl: "waitingCreateConn (agent_run ?a0 evs) \<noteq> [] \<longrightarrow>
      availableSockets (agent_run ?a0 evs) = []"
    by (auto simp: queue_inv_def)
  have fifo: "queued_log ?a0 evs =
     map fst (handed_log ?a0 evs) @ map fst (pendingHandoffs (agent_run ?a0 evs)) @
     flushed_log ?a0 evs @ waitingCreateConn (agent_run ?a0 evs)"
    using waiters_fifo_from [OF queue_inv_new, of opt_max opt_port evs]
    by (simp add: new_TunnelAgent_def)
  have socks: "matched_log ?a0 evs =
     map snd (handed_log ?a0 evs) @ map snd (pendingHandoffs (agent_run ?a0 evs))"
    using sockets_fifo_from [of ?a0 evs] by (simp add: new_TunnelAgent_def)
  have pairs: "handed_log ?a0 evs @ pendingHandoffs (agent_run ?a0 evs)
     = zip (queued_log ?a0 evs) (matched_log ?a0 evs)"
  proof -
    let ?ps = "handed_log ?a0 evs @ pendingHandoffs (agent_run ?a0 evs)"
    from fifo have "queued_log ?a0 evs =
        map fst ?ps @ (flushed_log ?a0 evs @ waitingCreateConn (agent_run ?a0 evs))" by simp
    moreover from socks have "matched_log ?a0 evs = map snd ?ps" by simp
    ultimately show ?thesis by (simp only: zip_prefix_pairs)
  qed
  show ?thesis
    using excl fifo pairs handed_calls_in_effects [of ?a0 evs]
    by (simp add: agent_onConnection_def agent_run_timeout_def createConnection_def Let_def)
qed

theorem waiters_exclude_idle_sockets_and_fifo_witness:
  "waitingCreateConn (agent_run (new_TunnelAgent None None)
      [CreateConnection 1, CreateConnection 2, CreateConnection 3, Connection 10 False, Timeout0,
       Connection 11 False]) = [3] \<and>
   availableSockets (agent_run (new_TunnelAgent None None)
      [CreateConnection 1, CreateConnection 2, CreateConnection 3, Connection 10 False, Timeout0,
       Connection 11 False]) = [] \<and>
   queued_log (new_TunnelAgent None None)
      [CreateConnection 1, CreateConnection 2, CreateConnection 3, Connection 10 False, Timeout0,
       Connection 11 False] = [1, 2, 3] \<and>
   matched_log (new_TunnelAgent None None)
      [CreateConnection 1, CreateConnection 2, CreateConnection 3, Connection 10 False, Timeout0,
       Connection 11 False] = [10, 11] \<and>
   handed_log (new_TunnelAgent None None)
      [CreateConnection 1, CreateConnection 2, CreateConnection 3, Connection 10 False, Timeout0,
       Connection 11 False] = [(1, 10)] \<and>
   agent_effects (new_TunnelAgent None None)
      [CreateConnection 1, CreateConnection 2, CreateConnection 3, Connection 10 False, Timeout0,
       Connection 11 False] = [Emit_online, Call 1 (Inr 10)] \<and>
   pendingHandoffs (agent_run (new_TunnelAgent None None)
      [CreateConnection 1, CreateConnection 2, CreateConnection 3, Connection 10 False, Timeout0,
       Connection 11 False]) = [(2, 11)] \<and>
   createConnection (agent_run (new_TunnelAgent None None) [Connection 10 False]) 1
     = ((agent_run (new_TunnelAgent None None) [Connection 10 False])\<lparr> availableSockets := [] \<rparr>,
        [Call 1 (Inr 10)])"
  using waiters_exclude_idle_sockets_and_fifo
          [where opt_max = None and opt_port = None
             and evs = "[CreateConnection 1, CreateConnection 2, CreateConnection 3,
                         Connection 10 False, Timeout0, Connection 11 False]"
             and a = "agent_run (new_TunnelAgent None None) [Connection 10 False]"
             and sock = 10 and socks = "[]" and cb = 1]
  by (simp add: agent_defs Let_def)

subsection \<open>Client: the grace period\<close>

lemmas client_defs =
  new_Client_def clearTimeout_def timeout_delay_def clearGracePeriod_def setGracePeriod_def
  hasAvailableSockets_def getGracePeriodRemaining_def client_close_def on_agent_online_def
  on_agent_offline_def on_agent_error_def run_immediate_def timer_due_def timer_fires_def
  grace_timer_remaining_def client_agent_event_def getGracePeriod_def DEFAULT_GRACE_PERIOD_def
  getMaxGracePeriod_def

lemmas manager_defs =
  new_ClientManager_def truthy_def port_range_configured_def getPort_def releasePort_def
  removeClient_entry hasClient_def getClient_def caller_identifier_def identifierMatch_def
  strictMode_def registry_get_def inherited_property_def inherited_names_def
  getter_only_property_def getter_only_names_def
  newClient_resolve_entry newClient_begin_def newClient_finish_def newClient_def
  manager_client_event_def

lemmas scenario_defs = env0_def ip_options_def

text \<open>
  For the first timer of a client, armed by the constructor's deferred check in the
  millisecond of creation, \<open>getGracePeriodRemaining\<close> is the time until the timer
  fires (cut at 0), as long as the configured period is unchanged and at least 1 ms.
\<close>

lemma first_grace_timer_remaining:
  assumes "t \<noteq> 0" "1 \<le> getGracePeriod env" "getGracePeriod env \<le> 2147483647"
  shows "grace_timer_remaining (run_immediate env (new_Client i a ip ident t) t) now
           = Some (getGracePeriod env - (now - t))"
    and "getGracePeriodRemaining env (run_immediate env (new_Client i a ip ident t) t) now
           = max 0 (getGracePeriod env - (now - t))"
  using assms
  by (simp_all add: new_Client_def run_immediate_def setGracePeriod_def grace_timer_remaining_def
      timer_due_def timeout_delay_def getGracePeriodRemaining_def Let_def)

text \<open>
  C2 (the code departs from the claim).  \<open>getGracePeriodRemaining\<close> subtracts the age
  of the client (\<open>Date.now() - createdAt\<close>) from the grace period, not the time since
  the timer was armed.  Tunnel \<open>myapp\<close> is created at 1000 ms, its first socket connects
  at 2000 ms and closes at 100000 ms: the client is offline, its grace timer fires in
  30000 ms, but \<open>getGracePeriodRemaining\<close> is 0, and the public front-end answers 503
  with \<open>Retry-After: 0\<close>.
\<close>

theorem getGracePeriodRemaining_counts_from_creation:
  "(case clients offline_again ''myapp'' of
      None \<Rightarrow> False
    | Some c \<Rightarrow>
        \<not> isOnline c \<and> graceTimeout c \<noteq> None \<and>
        grace_timer_remaining c 100000 = Some 30000 \<and>
        getGracePeriodRemaining env0 c 100000 = 0) \<and>
   public_on_request None first_label env0 offline_again 100000 myapp_request =
     Respond 503 (Some ''Service Temporarily Unavailable'') [(''Retry-After'', ''0'')] []"
  by (simp add: offline_again_def scenario_defs agent_defs client_defs manager_defs Let_def
       public_on_request_def myapp_request_def first_label_def nonempty_def opt_or_def
       ceil_div_1000_def show_int_def show_nat.simps digit_char_def)

subsection \<open>Client: close\<close>

lemma map_of_filter_fst: "map_of (filter (\<lambda>t. fst t \<noteq> h) ts) h = None"
  by (induction ts) auto

lemma timer_due_clearTimeout: "timer_due (clearTimeout c h) h = None"
  by (simp add: timer_due_def clearTimeout_def map_of_filter_fst)

lemma timer_due_client_close_None:
  "timer_due c h = None \<Longrightarrow> timer_due (client_close c) h = None"
  by (auto simp: timer_due_def client_close_def clearGracePeriod_def clearTimeout_def Let_def
      map_of_eq_None_iff split: option.splits)

lemma closeEmitted_client_close: "closeEmitted (client_close c) = closeEmitted c + 1"
  by (simp add: client_close_def clearGracePeriod_def clearTimeout_def Let_def split: option.splits)

lemma client_close_clears:
  "graceTimeout (client_close c) = None \<and> destroyed (agent (client_close c))"
  by (simp add: client_close_def clearGracePeriod_def clearTimeout_def agent_destroy_def Let_def
      split: option.splits)

text \<open>
  C10 (as the code has it).  \<open>close()\<close> has no guard: every call clears the grace timer,
  destroys the agent and emits \<open>close\<close> once more, also on a client that is already
  closed.  An armed timer that comes due runs \<open>close()\<close> once, hence one emission, and
  the same timer does nothing when run again.  An \<open>online\<close> event while
  \<open>graceTimeout\<close> holds timer \<open>h\<close> sets the client online and disarms \<open>h\<close>: \<open>h\<close> never
  runs \<open>close()\<close>, and nothing is emitted.
\<close>

theorem client_close_emits_at_every_call:
  "closeEmitted (client_close c) = closeEmitted c + 1 \<and>
   graceTimeout (client_close c) = None \<and> destroyed (agent (client_close c)) \<and>
   (timer_due c h = Some due \<and> due \<le> now \<longrightarrow>
      closeEmitted (timer_fires c h now) = closeEmitted c + 1 \<and>
      timer_fires (timer_fires c h now) h now' = timer_fires c h now) \<and>
   (graceTimeout c = Some h \<longrightarrow>
      isOnline (on_agent_online c) \<and> graceTimeout (on_agent_online c) = None \<and>
      timer_fires (on_agent_online c) h now = on_agent_online c \<and>
      closeEmitted (on_agent_online c) = closeEmitted c)"
proof -
  have fire: "closeEmitted (timer_fires c h now) = closeEmitted c + 1 \<and>
      timer_fires (timer_fires c h now) h now' = timer_fires c h now"
    if "timer_due c h = Some due" "due \<le> now"
  proof -
    have eq: "timer_fires c h now = client_close (clearTimeout c h)"
      using that by (simp add: timer_fires_def)
    have "timer_due (timer_fires c h now) h = None"
      unfolding eq by (rule timer_due_client_close_None) (rule timer_due_clearTimeout)
    then have "timer_fires (timer_fires c h now) h now' = timer_fires c h now"
      by (simp add: timer_fires_def)
    moreover have "closeEmitted (timer_fires c h now) = closeEmitted c + 1"
      unfolding eq by (simp add: closeEmitted_client_close clearTimeout_def)
    ultimately show ?thesis by simp
  qed
  have online: "isOnline (on_agent_online c) \<and> graceTimeout (on_agent_online c) = None \<and>
      timer_fires (on_agent_online c) h now = on_agent_online c \<and>
      closeEmitted (on_agent_online c) = closeEmitted c"
    if "graceTimeout c = Some h"
  proof -
    have eq: "on_agent_online c = (clearTimeout (c\<lparr> isOnline := True \<rparr>) h)\<lparr> graceTimeout := None \<rparr>"
      using that by (simp add: on_agent_online_def clearGracePeriod_def)
    have "timer_due (on_agent_online c) h = None"
      unfolding eq using timer_due_clearTimeout [of "c\<lparr> isOnline := True \<rparr>" h]
      by (simp add: timer_due_def clearTimeout_def)
    then show ?thesis
      by (simp add: timer_fires_def) (simp add: eq clearTimeout_def)
  qed
  show ?thesis
    using fire online closeEmitted_client_close [of c] client_close_clears [of c] by blast
qed

theorem client_close_emits_at_every_call_witness:
  "timer_due (run_immediate env0 fresh_client 1000) 0 = Some 31000 \<and>
   closeEmitted (timer_fires (run_immediate env0 fresh_client 1000) 0 31000) = 1 \<and>
   timer_fires (timer_fires (run_immediate env0 fresh_client 1000) 0 31000) 0 31001
     = timer_fires (run_immediate env0 fresh_client 1000) 0 31000 \<and>
   graceTimeout (run_immediate env0 fresh_client 1000) = Some 0 \<and>
   graceTimeout (on_agent_online (run_immediate env0 fresh_client 1000)) = None \<and>
   closeEmitted (timer_fires (on_agent_online (run_immediate env0 fresh_client 1000)) 0 31000) = 0"
  using client_close_emits_at_every_call
          [of "run_immediate env0 fresh_client 1000" 0 31000 31000 31001]
  by (simp add: fresh_client_def env0_def client_defs agent_defs Let_def)

text \<open>A second \<open>close()\<close> on a closed client emits \<open>close\<close> a second time.\<close>

theorem second_close_emits_again:
  "closeEmitted (client_close fresh_client) = 1 \<and>
   closeEmitted (client_close (client_close fresh_client)) = 2"
  by (simp add: fresh_client_def client_defs agent_defs Let_def)

text \<open>
  Under a \<open>ClientManager\<close> the second call is the rule: when the grace timer of a
  registered client fires, its \<open>close()\<close> emits \<open>close\<close>, the manager's listener runs
  \<open>removeClient\<close>, and that calls \<open>close()\<close> on the same client again.
\<close>

lemma managed_client_closed_twice_by_its_timer:
  "clients (manager_step env0 waiting_first_socket (ClientEvent ''myapp'' (TimerFires 0) 31000))
     ''myapp'' = None \<and>
   map closeEmitted
     (closed_clients (manager_step env0 waiting_first_socket (ClientEvent ''myapp'' (TimerFires 0) 31000)))
     = [2]"
  by (simp add: waiting_first_socket_def scenario_defs manager_defs agent_defs client_defs Let_def)

subsection \<open>Public front-end\<close>

lemma ceil_div_1000_bounds:
  "1000 * (ceil_div_1000 x - 1) < x \<and> x \<le> 1000 * ceil_div_1000 x"
proof -
  define d where "d = (- x) div 1000"
  define r where "r = (- x) mod 1000"
  have "- x = 1000 * d + r" "0 \<le> r" "r < 1000"
    by (simp_all add: d_def r_def)
  moreover have "ceil_div_1000 x = - d"
    by (simp add: ceil_div_1000_def d_def)
  ultimately show ?thesis by simp
qed

text \<open>
  C6 (as the code has it).  \<open>/healthz\<close> is answered 200 before the Host header is looked
  at.  For every other request whose Host header is present and resolves to a
  subdomain: an id under which the registry reads nothing gives 404
  \<open>Tunnel Not Found\<close>; a client that is
  offline with a grace timer gives 503 \<open>Service Temporarily Unavailable\<close> with
  \<open>Retry-After\<close> the least number of seconds covering \<open>getGracePeriodRemaining()\<close>; a
  client that is online without an idle socket gives 503 \<open>Service Unavailable\<close> with
  the configured \<open>Retry-After\<close> (5 when none or 0 is configured); in every other case
  the request goes to \<open>client.handleRequest\<close>.
\<close>

theorem public_request_routing:
  assumes "req_url req \<noteq> ''/healthz''"
    and "req_headers req ''host'' = Some hostname" and "hostname \<noteq> []"
    and "getSubdomain hostname = Some clientId" and "clientId \<noteq> []"
  shows
    "(getClient manager clientId = Undefined \<longrightarrow>
        public_on_request opt_retryAfter getSubdomain env manager now req
          = Respond 404 (Some ''Tunnel Not Found'') [] []) \<and>
     (\<forall>c. getClient manager clientId = Registered c \<longrightarrow>
        (\<not> isOnline c \<and> graceTimeout c \<noteq> None \<longrightarrow>
           (\<exists>seconds.
              public_on_request opt_retryAfter getSubdomain env manager now req
                = Respond 503 (Some ''Service Temporarily Unavailable'')
                    [(''Retry-After'', show_int seconds)] [] \<and>
              1000 * (seconds - 1) < getGracePeriodRemaining env c now \<and>
              getGracePeriodRemaining env c now \<le> 1000 * seconds)) \<and>
        (isOnline c \<and> \<not> hasAvailableSockets c \<longrightarrow>
           public_on_request opt_retryAfter getSubdomain env manager now req
             = Respond 503 (Some ''Service Unavailable'')
                 [(''Retry-After'',
                   show_int (case opt_retryAfter of None \<Rightarrow> 5 | Some n \<Rightarrow> if n = 0 then 5 else n))] []) \<and>
        (\<not> (\<not> isOnline c \<and> graceTimeout c \<noteq> None) \<and> \<not> (isOnline c \<and> \<not> hasAvailableSockets c) \<longrightarrow>
           public_on_request opt_retryAfter getSubdomain env manager now req
             = Handle_request clientId))"
proof -
  have grace: "\<exists>seconds.
      Respond 503 (Some ''Service Temporarily Unavailable'')
        [(''Retry-After'', show_int (ceil_div_1000 (getGracePeriodRemaining env c now)))] []
      = Respond 503 (Some ''Service Temporarily Unavailable'')
          [(''Retry-After'', show_int seconds)] [] \<and>
      1000 * (seconds - 1) < getGracePeriodRemaining env c now \<and>
      getGracePeriodRemaining env c now \<le> 1000 * seconds" for c
    using ceil_div_1000_bounds [of "getGracePeriodRemaining env c now"] by blast
  show ?thesis
    using assms grace
    by (auto simp: public_on_request_def nonempty_def opt_or_def Let_def split: option.splits)
qed

theorem public_request_routing_witness:
  "public_on_request None first_label env0 waiting_first_socket 5500 myapp_request
     = Respond 503 (Some ''Service Temporarily Unavailable'') [(''Retry-After'', ''26'')] [] \<and>
   public_on_request None first_label env0 (new_ClientManager None None None) 5500 myapp_request
     = Respond 404 (Some ''Tunnel Not Found'') [] []"
proof -
  have a: "req_url myapp_request \<noteq> ''/healthz''"
    and b: "req_headers myapp_request ''host'' = Some ''myapp.example.com''"
    and c: "''myapp.example.com'' \<noteq> []"
    and d: "first_label ''myapp.example.com'' = Some ''myapp''"
    and e: "''myapp'' \<noteq> []"
    by (simp_all add: myapp_request_def first_label_def)
  have none: "getClient (new_ClientManager None None None) ''myapp'' = Undefined"
    by (simp add: getClient_def registry_get_def new_ClientManager_def inherited_property_def
        inherited_names_def)
  have "public_on_request None first_label env0 (new_ClientManager None None None) 5500 myapp_request
     = Respond 404 (Some ''Tunnel Not Found'') [] []"
    using public_request_routing
            [of myapp_request "''myapp.example.com''" first_label "''myapp''"
                "new_ClientManager None None None" None env0 5500, OF a b c d e]
      none by simp
  moreover
  have "public_on_request None first_label env0 waiting_first_socket 5500 myapp_request
     = Respond 503 (Some ''Service Temporarily Unavailable'') [(''Retry-After'', ''26'')] []"
    by (simp add: waiting_first_socket_def scenario_defs agent_defs client_defs manager_defs Let_def
       public_on_request_def myapp_request_def first_label_def nonempty_def opt_or_def
       ceil_div_1000_def show_int_def show_nat.simps digit_char_def)
  ultimately show ?thesis by simp
qed

text \<open>
  A request for \<open>/healthz\<close> whose Host header names a tunnel that does not exist is
  answered 200, not 404.
\<close>

theorem healthz_precedes_routing:
  "first_label ''missing.example.com'' = Some ''missing'' \<and>
   getClient (new_ClientManager None None None) ''missing'' = Undefined \<and>
   public_on_request None first_label env0 (new_ClientManager None None None) 5500 healthz_request
     = Respond 200 None [(''Content-Type'', ''application/json'')] healthy_body"
  by (simp add: public_on_request_def healthz_request_def first_label_def getClient_def
      registry_get_def new_ClientManager_def inherited_property_def inherited_names_def)

text \<open>
  An id under which no client is registered but which names a property that the
  registry object inherits is not answered 404: \<open>getClient\<close> returns the inherited
  function, and the listener throws at \<open>client.handleRequest\<close>.  The same id makes
  \<open>newClient\<close> throw a \<open>TypeError\<close>, whatever the state of the port pool.
\<close>

lemma inherited_name_is_no_tunnel:
  "clients (new_ClientManager None None None) ''constructor'' = None \<and>
   public_on_request None first_label env0 (new_ClientManager None None None) 5500
       (myapp_request\<lparr> req_headers := [''host'' \<mapsto> ''constructor.example.com''] \<rparr>)
     = Listener_throws \<and>
   newClient env0 (new_ClientManager None None None) ''constructor'' (ip_options ''1.2.3.4'')
       ''clever-wombat-42'' 1000 (Listening 40000)
     = (Thrown Not_a_function, new_ClientManager None None None)"
  by (simp add: public_on_request_def myapp_request_def first_label_def nonempty_def getClient_def
      registry_get_def new_ClientManager_def inherited_property_def inherited_names_def
      newClient_def newClient_begin_def newClient_resolve_entry)

subsection \<open>ClientManager: the port pool and the registry\<close>

lemma manager_inv_new: "manager_inv (new_ClientManager mts lo hi)"
  by (auto simp: manager_inv_def ports_partition_def registry_ports_def registry_keys_def
      new_ClientManager_def port_range_configured_def)

lemma releasePort_range [simp]:
  "portRangeStart (releasePort m p) = portRangeStart m"
  "portRangeEnd (releasePort m p) = portRangeEnd m"
  "max_tcp_sockets (releasePort m p) = max_tcp_sockets m"
  "clients (releasePort m p) = clients m"
  "stats_tunnels (releasePort m p) = stats_tunnels m"
  "closed_clients (releasePort m p) = closed_clients m"
  by (simp_all add: releasePort_def)

lemma configured_releasePort [simp]:
  "port_range_configured (releasePort m p) = port_range_configured m"
  by (simp add: port_range_configured_def)

lemma partition_release:
  fixes A U R :: "int set"
  assumes "A \<inter> U = {}" "A \<union> U = R" "p \<in> U"
  shows "insert p A \<inter> (U - {p}) = {}" "insert p A \<union> (U - {p}) = R" "p \<notin> A"
  using assms by blast+

lemma ports_partition_releasePort:
  assumes "ports_partition m"
  shows "ports_partition (releasePort m p)"
proof (cases "truthy p \<and> port_range_configured m \<and> the p \<in> usedPorts m")
  case False
  then have "releasePort m p = m"
    by (auto simp: releasePort_def port_range_configured_def)
  with assms show ?thesis by simp
next
  case True
  then have eq: "releasePort m p =
      m\<lparr> usedPorts := usedPorts m - {the p}, availablePorts := availablePorts m @ [the p] \<rparr>"
    by (simp add: releasePort_def port_range_configured_def)
  from assms True have d: "distinct (availablePorts m)"
    and i: "set (availablePorts m) \<inter> usedPorts m = {}"
    and u: "set (availablePorts m) \<union> usedPorts m = {the (portRangeStart m) .. the (portRangeEnd m)}"
    by (simp_all add: ports_partition_def)
  from True have pu: "the p \<in> usedPorts m" by simp
  show ?thesis
    unfolding eq ports_partition_def
    using True d partition_release [OF i u pu]
    by (simp add: port_range_configured_def)
qed

lemma usedPorts_releasePort:
  "usedPorts (releasePort m p) \<subseteq> usedPorts m \<and>
   usedPorts m - (case p of None \<Rightarrow> {} | Some q \<Rightarrow> {q}) \<subseteq> usedPorts (releasePort m p)"
  by (auto simp: releasePort_def truthy_def split: option.splits)

lemma partition_acquire:
  fixes A U R :: "int set"
  assumes "insert p A \<inter> U = {}" "insert p A \<union> U = R" "p \<notin> A"
  shows "A \<inter> insert p U = {}" "A \<union> insert p U = R" "p \<notin> U"
  using assms by blast+

lemma getPort_Inr:
  assumes "getPort m = Inr (port, m')"
  shows "portRangeStart m' = portRangeStart m" "portRangeEnd m' = portRangeEnd m"
    "max_tcp_sockets m' = max_tcp_sockets m" "clients m' = clients m"
    "stats_tunnels m' = stats_tunnels m" "closed_clients m' = closed_clients m"
    "port_range_configured m' = port_range_configured m"
    "ports_partition m \<Longrightarrow> ports_partition m'"
    "ports_partition m \<Longrightarrow> (case port of Some p \<Rightarrow> p \<notin> usedPorts m \<and> usedPorts m' = insert p (usedPorts m)
                                | None \<Rightarrow> \<not> port_range_configured m \<and> usedPorts m' = usedPorts m)"
proof -
  show "portRangeStart m' = portRangeStart m" "portRangeEnd m' = portRangeEnd m"
    "max_tcp_sockets m' = max_tcp_sockets m" "clients m' = clients m"
    "stats_tunnels m' = stats_tunnels m" "closed_clients m' = closed_clients m"
    "port_range_configured m' = port_range_configured m"
    using assms
    by (auto simp: getPort_def port_range_configured_def split: list.splits if_splits)
  assume pp: "ports_partition m"
  show "ports_partition m'"
  proof (cases "availablePorts m")
    case Nil
    with assms pp show ?thesis by (auto simp: getPort_def split: if_splits)
  next
    case (Cons q rest)
    with assms have m': "m' = m\<lparr> availablePorts := rest, usedPorts := insert q (usedPorts m) \<rparr>"
      by (simp add: getPort_def)
    from pp Cons have c: "port_range_configured m" by (auto simp: ports_partition_def split: if_splits)
    with pp Cons have "q \<notin> set rest" "distinct rest"
      and i: "insert q (set rest) \<inter> usedPorts m = {}"
      and u: "insert q (set rest) \<union> usedPorts m = {the (portRangeStart m) .. the (portRangeEnd m)}"
      by (simp_all add: ports_partition_def)
    with partition_acquire [OF i u] c show ?thesis
      unfolding m' ports_partition_def by (simp add: port_range_configured_def)
  qed
  show "case port of Some p \<Rightarrow> p \<notin> usedPorts m \<and> usedPorts m' = insert p (usedPorts m)
        | None \<Rightarrow> \<not> port_range_configured m \<and> usedPorts m' = usedPorts m"
  proof (cases "availablePorts m")
    case Nil
    with assms show ?thesis by (auto simp: getPort_def split: if_splits)
  next
    case (Cons q rest)
    with assms have m': "m' = m\<lparr> availablePorts := rest, usedPorts := insert q (usedPorts m) \<rparr>"
      and p: "port = Some q"
      by (simp_all add: getPort_def)
    from pp Cons have "q \<notin> usedPorts m" by (auto simp: ports_partition_def split: if_splits)
    then show ?thesis by (simp add: m' p)
  qed
qed

lemma removeClient_fields [simp]:
  "portRangeStart (removeClient m i) = portRangeStart m"
  "portRangeEnd (removeClient m i) = portRangeEnd m"
  "max_tcp_sockets (removeClient m i) = max_tcp_sockets m"
  "port_range_configured (removeClient m i) = port_range_configured m"
  by (simp_all add: removeClient_entry port_range_configured_def Let_def split: option.splits)

lemma removeClient_clients: "clients (removeClient m i) = (clients m)(i := None)"
  by (auto simp: removeClient_entry Let_def split: option.splits)

lemma ports_partition_removeClient:
  "ports_partition m \<Longrightarrow> ports_partition (removeClient m i)"
proof (cases "clients m i")
  case None
  then show "ports_partition m \<Longrightarrow> ?thesis" by (simp add: removeClient_entry)
next
  case (Some c)
  assume "ports_partition m"
  then have "ports_partition (releasePort m (agent_port (agent c)))"
    by (rule ports_partition_releasePort)
  then show ?thesis
    using Some by (simp add: removeClient_entry Let_def ports_partition_def port_range_configured_def)
qed

lemma usedPorts_removeClient:
  "usedPorts (removeClient m i) =
     (case clients m i of None \<Rightarrow> usedPorts m | Some c \<Rightarrow> usedPorts (releasePort m (agent_port (agent c))))"
  by (simp add: removeClient_entry Let_def split: option.splits)

lemma registry_ports_removeClient:
  assumes "registry_ports m"
  shows "registry_ports (removeClient m i)"
proof (cases "clients m i")
  case None
  then show ?thesis using assms by (simp add: removeClient_entry)
next
  case (Some c)
  have used: "usedPorts (removeClient m i) = usedPorts (releasePort m (agent_port (agent c)))"
    using Some by (simp add: usedPorts_removeClient)
  show ?thesis
    unfolding registry_ports_def
  proof (intro conjI allI impI)
    fix j d p
    assume d: "clients (removeClient m i) j = Some d" and p: "agent_port (agent d) = Some p"
    from d have ji: "j \<noteq> i" and dj: "clients m j = Some d"
      by (auto simp: removeClient_clients split: if_splits)
    have pu: "p \<in> usedPorts m"
      using assms dj p unfolding registry_ports_def by blast
    have "agent_port (agent c) \<noteq> Some p"
      using assms dj Some ji p unfolding registry_ports_def by blast
    then have "p \<in> usedPorts (releasePort m (agent_port (agent c)))"
      using pu usedPorts_releasePort [of m "agent_port (agent c)"] by (auto split: option.splits)
    then show "p \<in> usedPorts (removeClient m i)" using used by simp
  next
    fix j d
    assume d: "clients (removeClient m i) j = Some d" and p: "agent_port (agent d) = None"
    from d have dj: "clients m j = Some d"
      by (auto simp: removeClient_clients split: if_splits)
    then show "\<not> port_range_configured (removeClient m i)"
      using assms p unfolding registry_ports_def by auto
  next
    fix j k d e p
    assume "clients (removeClient m i) j = Some d" "clients (removeClient m i) k = Some e" "j \<noteq> k"
      "agent_port (agent d) = Some p"
    then have "clients m j = Some d" "clients m k = Some e"
      by (auto simp: removeClient_clients split: if_splits)
    with \<open>j \<noteq> k\<close> \<open>agent_port (agent d) = Some p\<close> show "agent_port (agent e) \<noteq> Some p"
      using assms unfolding registry_ports_def by blast
  qed
qed

lemma registry_keys_removeClient: "registry_keys m \<Longrightarrow> registry_keys (removeClient m i)"
  by (simp add: registry_keys_def removeClient_clients)

lemma manager_inv_removeClient: "manager_inv m \<Longrightarrow> manager_inv (removeClient m i)"
  by (simp add: manager_inv_def ports_partition_removeClient registry_ports_removeClient
      registry_keys_removeClient)

lemma agent_step_agent_port [simp]:
  "agent_port (fst (agent_step a ev)) = agent_port a"
  by (cases ev)
     (auto simp: agent_onConnection_def agent_socket_close_def createConnection_def
        agent_onClose_def agent_run_timeout_def Let_def split: list.splits prod.splits)

lemma client_close_agent_port [simp]: "agent_port (agent (client_close c)) = agent_port (agent c)"
  by (simp add: client_close_def clearGracePeriod_def clearTimeout_def agent_destroy_def Let_def
      split: option.splits)

lemma client_handle_effect_agent [simp]:
  "agent (client_handle_effect env now c eff) = agent c"
  by (cases eff)
     (simp_all add: on_agent_online_def on_agent_offline_def clearGracePeriod_def
        setGracePeriod_def clearTimeout_def Let_def split: option.splits)

lemma foldl_client_handle_effect_agent [simp]:
  "agent (foldl (client_handle_effect env now) c effs) = agent c"
  by (induction effs arbitrary: c) simp_all

lemma client_step_agent_port [simp]:
  "agent_port (agent (client_step env c (ev, now))) = agent_port (agent c)"
  by (cases ev)
     (simp_all add: client_agent_event_def on_agent_online_def on_agent_offline_def
        on_agent_error_def run_immediate_def timer_fires_def clearGracePeriod_def
        setGracePeriod_def clearTimeout_def Let_def split: option.splits)

lemma registry_ports_store:
  assumes inv: "registry_ports m"
    and cl: "clients m' = (clients m)(i \<mapsto> c)"
    and used: "usedPorts m \<subseteq> usedPorts m'"
    and conf: "port_range_configured m' = port_range_configured m"
    and port: "\<And>p. agent_port (agent c) = Some p \<Longrightarrow>
                 p \<in> usedPorts m' \<and> (\<forall>j d. j \<noteq> i \<longrightarrow> clients m j = Some d \<longrightarrow> agent_port (agent d) \<noteq> Some p)"
    and noport: "agent_port (agent c) = None \<Longrightarrow> \<not> port_range_configured m"
  shows "registry_ports m'"
  unfolding registry_ports_def
proof (intro conjI allI impI)
  fix j d p
  assume "clients m' j = Some d" "agent_port (agent d) = Some p"
  then show "p \<in> usedPorts m'"
    using inv cl used port unfolding registry_ports_def
    by (cases "j = i") auto
next
  fix j d
  assume "clients m' j = Some d" "agent_port (agent d) = None"
  then show "\<not> port_range_configured m'"
    using inv cl conf noport unfolding registry_ports_def
    by (cases "j = i") auto
next
  fix j k d e p
  assume a: "clients m' j = Some d" "clients m' k = Some e" "j \<noteq> k" "agent_port (agent d) = Some p"
  show "agent_port (agent e) \<noteq> Some p"
  proof (cases "j = i")
    case True
    with a cl have "d = c" "k \<noteq> i" "clients m k = Some e" by auto
    with a port show ?thesis by blast
  next
    case False
    note ji = this
    with a cl have dj: "clients m j = Some d" by auto
    show ?thesis
    proof (cases "k = i")
      case True
      with a cl have "e = c" by auto
      with port [of p] dj ji a show ?thesis by auto
    next
      case False
      with a cl have "clients m k = Some e" by auto
      with dj a inv show ?thesis unfolding registry_ports_def by blast
    qed
  qed
qed

lemma registry_ports_same_port:
  assumes inv: "registry_ports m"
    and old: "clients m i = Some c"
    and same: "agent_port (agent c') = agent_port (agent c)"
  shows "registry_ports (m\<lparr> clients := (clients m)(i \<mapsto> c') \<rparr>)"
proof (rule registry_ports_store [OF inv, where i = i and c = c'])
  show "clients (m\<lparr> clients := (clients m)(i \<mapsto> c') \<rparr>) = (clients m)(i \<mapsto> c')" by simp
  show "usedPorts m \<subseteq> usedPorts (m\<lparr> clients := (clients m)(i \<mapsto> c') \<rparr>)" by simp
  show "port_range_configured (m\<lparr> clients := (clients m)(i \<mapsto> c') \<rparr>) = port_range_configured m"
    by (simp add: port_range_configured_def)
  show "p \<in> usedPorts (m\<lparr> clients := (clients m)(i \<mapsto> c') \<rparr>) \<and>
        (\<forall>j d. j \<noteq> i \<longrightarrow> clients m j = Some d \<longrightarrow> agent_port (agent d) \<noteq> Some p)"
    if "agent_port (agent c') = Some p" for p
    using that inv old same unfolding registry_ports_def by auto
  show "\<not> port_range_configured m" if "agent_port (agent c') = None"
    using that inv old same unfolding registry_ports_def by auto
qed

lemma manager_inv_same_port:
  assumes "manager_inv m" "clients m i = Some c" "agent_port (agent c') = agent_port (agent c)"
  shows "manager_inv (m\<lparr> clients := (clients m)(i \<mapsto> c') \<rparr>)"
proof -
  from assms(1,2) have "registry_keys (m\<lparr> clients := (clients m)(i \<mapsto> c') \<rparr>)"
    by (auto simp: manager_inv_def registry_keys_def)
  with assms registry_ports_same_port [of m i c c'] show ?thesis
    by (simp add: manager_inv_def ports_partition_def port_range_configured_def)
qed

lemma manager_inv_stats [simp]:
  "manager_inv (m\<lparr> stats_tunnels := n \<rparr>) = manager_inv m"
  by (simp add: manager_inv_def ports_partition_def registry_ports_def registry_keys_def
      port_range_configured_def)

lemma manager_inv_resolve:
  assumes "manager_inv m"
  shows "manager_inv (snd (newClient_resolve env m i options random_id now))"
  using assms
  by (auto simp: newClient_resolve_entry Let_def manager_inv_removeClient split: option.splits)

lemma manager_inv_getPort:
  assumes inv: "manager_inv m1"
    and gp: "getPort m1 = Inr (port, m2)"
  shows "manager_inv m2"
proof -
  from inv have pp: "ports_partition m1" and rp: "registry_ports m1" and rk: "registry_keys m1"
    by (simp_all add: manager_inv_def)
  note g = getPort_Inr [OF gp]
  have "usedPorts m1 \<subseteq> usedPorts m2"
    using g(9) [OF pp] by (auto split: option.splits)
  with rp g(4,7) have "registry_ports m2"
    unfolding registry_ports_def by (simp add: subset_iff)
  moreover from rk g(4) have "registry_keys m2" by (simp add: registry_keys_def)
  ultimately show ?thesis using g(8) [OF pp] by (simp add: manager_inv_def)
qed

lemma manager_inv_store_new:
  assumes inv: "manager_inv m1"
    and gp: "getPort m1 = Inr (port, m2)"
    and c: "agent_port (agent c) = port"
    and key: "\<not> getter_only_property i"
  shows "manager_inv (m2\<lparr> clients := (clients m2)(i \<mapsto> c) \<rparr>)"
proof -
  let ?m3 = "m2\<lparr> clients := (clients m2)(i \<mapsto> c) \<rparr>"
  from inv have pp: "ports_partition m1" and rp: "registry_ports m1" and rk: "registry_keys m1"
    by (simp_all add: manager_inv_def)
  note g = getPort_Inr [OF gp]
  from rk key g(4) have rk3: "registry_keys ?m3" by (auto simp: registry_keys_def)
  have pp3: "ports_partition ?m3"
    using g(8) [OF pp] by (simp add: ports_partition_def port_range_configured_def)
  have rp3: "registry_ports ?m3"
  proof (rule registry_ports_store [OF rp, where i = i and c = c])
    show "clients ?m3 = (clients m1)(i \<mapsto> c)" using g(4) by simp
    show "usedPorts m1 \<subseteq> usedPorts ?m3"
      using g(9) [OF pp] by (auto split: option.splits)
    show "port_range_configured ?m3 = port_range_configured m1"
      using g(7) by (simp add: port_range_configured_def)
    show "p \<in> usedPorts ?m3 \<and>
        (\<forall>j d. j \<noteq> i \<longrightarrow> clients m1 j = Some d \<longrightarrow> agent_port (agent d) \<noteq> Some p)"
      if "agent_port (agent c) = Some p" for p
    proof -
      from that c have "port = Some p" by simp
      with g(9) [OF pp] have "p \<notin> usedPorts m1" "usedPorts m2 = insert p (usedPorts m1)" by simp_all
      then show ?thesis using rp unfolding registry_ports_def by auto
    qed
    show "\<not> port_range_configured m1" if "agent_port (agent c) = None"
      using that c g(9) [OF pp] by simp
  qed
  show ?thesis using pp3 rp3 rk3 by (simp add: manager_inv_def)
qed

lemma manager_inv_begin:
  assumes "manager_inv m"
  shows "manager_inv (snd (newClient_begin env m i options random_id now))"
proof -
  obtain r m1 where res: "newClient_resolve env m i options random_id now = (r, m1)"
    by (cases "newClient_resolve env m i options random_id now")
  from manager_inv_resolve [OF assms, of env i options random_id now] res
  have inv1: "manager_inv m1" by simp
  show ?thesis
  proof (cases r)
    case (Inl err)
    with res inv1 show ?thesis by (simp add: newClient_begin_def)
  next
    case (Inr i')
    show ?thesis
    proof (cases "getPort m1")
      case (Inl err)
      with res Inr inv1 show ?thesis by (simp add: newClient_begin_def)
    next
      case gp: (Inr pm)
      obtain port m2 where pm: "pm = (port, m2)" by (cases pm)
      from gp pm have gp2: "getPort m1 = Inr (port, m2)" by simp
      show ?thesis
      proof (cases "getter_only_property i' \<and> clients m2 i' = None")
        case True
        with res Inr gp2 manager_inv_getPort [OF inv1 gp2] show ?thesis
          by (simp add: newClient_begin_def Let_def)
      next
        case False
        from inv1 have "registry_keys m1" by (simp add: manager_inv_def)
        with False getPort_Inr(4) [OF gp2] have key: "\<not> getter_only_property i'"
          by (auto simp: registry_keys_def)
        have "manager_inv (m2\<lparr> clients := (clients m2)(i' \<mapsto> c) \<rparr>)"
          if "agent_port (agent c) = port" for c
          using manager_inv_store_new [OF inv1 gp2 that key] .
        then show ?thesis
          using res Inr gp2 key
          by (simp add: newClient_begin_def Let_def agent_listen_def new_TunnelAgent_def
              new_Client_def)
      qed
    qed
  qed
qed

lemma manager_inv_finish:
  "manager_inv m \<Longrightarrow> manager_inv (snd (newClient_finish m i outcome))"
  by (cases outcome) (simp_all add: newClient_finish_def manager_inv_removeClient)

lemma manager_inv_newClient:
  assumes "manager_inv m"
  shows "manager_inv (snd (newClient env m i options random_id now outcome))"
proof -
  obtain r m1 where b: "newClient_begin env m i options random_id now = (r, m1)"
    by (cases "newClient_begin env m i options random_id now")
  with manager_inv_begin [OF assms, of env i options random_id now]
  have "manager_inv m1" by simp
  with b show ?thesis
    by (cases r) (simp_all add: newClient_def manager_inv_finish)
qed

lemma manager_inv_client_event:
  assumes "manager_inv m"
  shows "manager_inv (manager_client_event env m i ev now)"
proof (cases "clients m i")
  case None
  with assms show ?thesis by (simp add: manager_client_event_def)
next
  case (Some c)
  have "manager_inv (m\<lparr> clients := (clients m)(i \<mapsto> client_step env c (ev, now)) \<rparr>)"
    by (rule manager_inv_same_port [OF assms Some]) simp
  then show ?thesis
    using Some by (simp add: manager_client_event_def Let_def manager_inv_removeClient)
qed

lemma manager_inv_step: "manager_inv m \<Longrightarrow> manager_inv (manager_step env m op)"
  by (cases op)
     (simp_all add: manager_inv_newClient manager_inv_begin manager_inv_finish
        manager_inv_removeClient manager_inv_client_event)

lemma manager_inv_run: "manager_inv m \<Longrightarrow> manager_inv (manager_run env m ops)"
  by (induction ops arbitrary: m) (simp_all add: manager_inv_step)

lemma newClient_resolve_range:
  "portRangeStart (snd (newClient_resolve env m i options random_id now)) = portRangeStart m \<and>
   portRangeEnd (snd (newClient_resolve env m i options random_id now)) = portRangeEnd m"
  by (simp add: newClient_resolve_entry Let_def split: option.splits)

lemma newClient_begin_range:
  "portRangeStart (snd (newClient_begin env m i options random_id now)) = portRangeStart m \<and>
   portRangeEnd (snd (newClient_begin env m i options random_id now)) = portRangeEnd m"
proof -
  obtain r m1 where res: "newClient_resolve env m i options random_id now = (r, m1)"
    by (cases "newClient_resolve env m i options random_id now")
  with newClient_resolve_range [of env m i options random_id now]
  have r1: "portRangeStart m1 = portRangeStart m \<and> portRangeEnd m1 = portRangeEnd m" by simp
  show ?thesis
  proof (cases r)
    case (Inl err)
    with res r1 show ?thesis by (simp add: newClient_begin_def)
  next
    case (Inr i')
    show ?thesis
    proof (cases "getPort m1")
      case (Inl err)
      with res Inr r1 show ?thesis by (simp add: newClient_begin_def)
    next
      case gp: (Inr pm)
      obtain port m2 where pm: "pm = (port, m2)" by (cases pm)
      from getPort_Inr(1,2) [of m1 port m2] gp pm r1
      have "portRangeStart m2 = portRangeStart m \<and> portRangeEnd m2 = portRangeEnd m" by simp
      then show ?thesis
        using res Inr gp pm
        by (cases "getter_only_property i' \<and> clients m2 i' = None")
           (simp_all add: newClient_begin_def Let_def agent_listen_def new_TunnelAgent_def)
    qed
  qed
qed

lemma newClient_finish_range:
  "portRangeStart (snd (newClient_finish m i outcome)) = portRangeStart m \<and>
   portRangeEnd (snd (newClient_finish m i outcome)) = portRangeEnd m"
  by (cases outcome) (simp_all add: newClient_finish_def)

lemma newClient_range:
  "portRangeStart (snd (newClient env m i options random_id now outcome)) = portRangeStart m \<and>
   portRangeEnd (snd (newClient env m i options random_id now outcome)) = portRangeEnd m"
proof -
  obtain r m1 where b: "newClient_begin env m i options random_id now = (r, m1)"
    by (cases "newClient_begin env m i options random_id now")
  with newClient_begin_range [of env m i options random_id now]
  have "portRangeStart m1 = portRangeStart m \<and> portRangeEnd m1 = portRangeEnd m" by simp
  with b newClient_finish_range [of m1 _ outcome] show ?thesis
    by (cases r) (simp_all add: newClient_def)
qed

lemma manager_step_range:
  "portRangeStart (manager_step env m op) = portRangeStart m \<and>
   portRangeEnd (manager_step env m op) = portRangeEnd m"
proof (cases op)
  case (NewClient i options random_id now outcome)
  then show ?thesis using newClient_range [of env m i options random_id now outcome] by simp
next
  case (NewClientBegin i options random_id now)
  then show ?thesis using newClient_begin_range [of env m i options random_id now] by simp
next
  case (NewClientFinish i outcome)
  then show ?thesis using newClient_finish_range [of m i outcome] by simp
next
  case (RemoveClient i)
  then show ?thesis by simp
next
  case (ClientEvent i ev now)
  then show ?thesis by (simp add: manager_client_event_def Let_def split: option.splits)
qed

lemma manager_run_range:
  "portRangeStart (manager_run env m ops) = portRangeStart m \<and>
   portRangeEnd (manager_run env m ops) = portRangeEnd m"
  by (induction ops arbitrary: m) (simp_all add: manager_step_range)

lemma count_list_append_new:
  "p \<notin> set xs \<Longrightarrow> count_list (xs @ [p]) p = 1"
  by (induction xs) auto

lemma releasePort_used:
  assumes "ports_partition m" "truthy port" "the port \<in> usedPorts m"
  shows "count_list (availablePorts (releasePort m port)) (the port) = 1"
    and "the port \<notin> usedPorts (releasePort m port)"
proof -
  from assms have conf: "port_range_configured m"
    by (auto simp: ports_partition_def split: if_splits)
  with assms have "the port \<notin> set (availablePorts m)"
    by (auto simp: ports_partition_def)
  with assms conf show "count_list (availablePorts (releasePort m port)) (the port) = 1"
    by (simp add: releasePort_def port_range_configured_def count_list_append_new)
  from assms conf show "the port \<notin> usedPorts (releasePort m port)"
    by (simp add: releasePort_def port_range_configured_def)
qed

lemma releasePort_noop:
  "\<not> (truthy port \<and> the port \<in> usedPorts m) \<Longrightarrow> releasePort m port = m"
  by (auto simp: releasePort_def)

lemma releasePort_twice: "releasePort (releasePort m port) port = releasePort m port"
  by (auto simp: releasePort_def)

lemma getPort_empty:
  "port_range_configured m \<Longrightarrow> availablePorts m = [] \<Longrightarrow> getPort m = Inl No_available_ports"
  by (simp add: getPort_def)

lemma newClient_no_ports:
  assumes "newClient_resolve env m i options random_id now = (Inr i', m1)"
    and "port_range_configured m1" and "availablePorts m1 = []"
  shows "newClient env m i options random_id now outcome = (Thrown No_available_ports, m1)"
  using assms by (simp add: newClient_def newClient_begin_def getPort_def)

lemma newClient_resolve_fresh:
  "clients m i = None \<Longrightarrow> \<not> inherited_property i
     \<Longrightarrow> newClient_resolve env m i options random_id now = (Inr i, m)"
  by (simp add: newClient_resolve_entry Let_def)

text \<open>
  C8 (as the code has it).  With a port range configured, in every state that calls of \<open>newClient\<close>
  (also interleaved around their \<open>await\<close>) and \<open>removeClient\<close> and the events of
  registered clients can lead to: the available
  list has no duplicate, shares no port with the used set, and together they are the
  range; two registered clients never hold the same port; releasing a port that is in
  the used set puts it on the available list once and takes it out of the used set,
  and releasing a port that is not in the used set (such as one just released) changes
  nothing; and a call of \<open>newClient\<close> that comes to allocate a port while the available
  list is empty (such as any call for an id under which the registry reads nothing)
  throws \<open>No available ports in range\<close> and leaves the manager as it is.  The pool
  is looked at when the call allocates, after the id has been resolved: an empty pool
  at the time of the call does not decide the outcome.
\<close>

theorem port_pool_is_a_partition:
  assumes "truthy lo" and "truthy hi"
  shows
    "distinct (availablePorts (manager_run env (new_ClientManager mts lo hi) ops)) \<and>
     set (availablePorts (manager_run env (new_ClientManager mts lo hi) ops)) \<inter>
       usedPorts (manager_run env (new_ClientManager mts lo hi) ops) = {} \<and>
     set (availablePorts (manager_run env (new_ClientManager mts lo hi) ops)) \<union>
       usedPorts (manager_run env (new_ClientManager mts lo hi) ops) = {the lo .. the hi} \<and>
     (\<forall>i j c d. i \<noteq> j \<and> clients (manager_run env (new_ClientManager mts lo hi) ops) i = Some c \<and>
                clients (manager_run env (new_ClientManager mts lo hi) ops) j = Some d \<longrightarrow>
                agent_port (agent c) \<noteq> agent_port (agent d)) \<and>
     (\<forall>port.
        releasePort (releasePort (manager_run env (new_ClientManager mts lo hi) ops) port) port
          = releasePort (manager_run env (new_ClientManager mts lo hi) ops) port \<and>
        (truthy port \<and> the port \<in> usedPorts (manager_run env (new_ClientManager mts lo hi) ops) \<longrightarrow>
           count_list (availablePorts
             (releasePort (manager_run env (new_ClientManager mts lo hi) ops) port)) (the port) = 1 \<and>
           the port \<notin> usedPorts (releasePort (manager_run env (new_ClientManager mts lo hi) ops) port)) \<and>
        (\<not> (truthy port \<and> the port \<in> usedPorts (manager_run env (new_ClientManager mts lo hi) ops)) \<longrightarrow>
           releasePort (manager_run env (new_ClientManager mts lo hi) ops) port
             = manager_run env (new_ClientManager mts lo hi) ops)) \<and>
     (\<forall>env' i options random_id now outcome i' m1.
        newClient_resolve env' (manager_run env (new_ClientManager mts lo hi) ops) i options random_id now
          = (Inr i', m1) \<and> availablePorts m1 = [] \<longrightarrow>
        newClient env' (manager_run env (new_ClientManager mts lo hi) ops) i options random_id now outcome
          = (Thrown No_available_ports, m1)) \<and>
     (\<forall>env' i options random_id now outcome.
        registry_get (manager_run env (new_ClientManager mts lo hi) ops) i = Undefined \<and>
        availablePorts (manager_run env (new_ClientManager mts lo hi) ops) = [] \<longrightarrow>
        newClient env' (manager_run env (new_ClientManager mts lo hi) ops) i options random_id now outcome
          = (Thrown No_available_ports, manager_run env (new_ClientManager mts lo hi) ops))"
proof -
  let ?m = "manager_run env (new_ClientManager mts lo hi) ops"
  have inv: "manager_inv ?m"
    by (rule manager_inv_run) (rule manager_inv_new)
  have range: "portRangeStart ?m = lo" "portRangeEnd ?m = hi"
    using manager_run_range [of env "new_ClientManager mts lo hi" ops]
    by (simp_all add: new_ClientManager_def)
  with assms have conf: "port_range_configured ?m"
    by (simp add: port_range_configured_def)
  from inv conf range have part:
    "distinct (availablePorts ?m)" "set (availablePorts ?m) \<inter> usedPorts ?m = {}"
    "set (availablePorts ?m) \<union> usedPorts ?m = {the lo .. the hi}"
    by (simp_all add: manager_inv_def ports_partition_def)
  from inv have pp: "ports_partition ?m" and rp: "registry_ports ?m"
    by (simp_all add: manager_inv_def)
  have ports: "agent_port (agent c) \<noteq> agent_port (agent d)"
    if "i \<noteq> j" "clients ?m i = Some c" "clients ?m j = Some d" for i j c d
  proof (cases "agent_port (agent c)")
    case None
    with rp that conf show ?thesis unfolding registry_ports_def by blast
  next
    case (Some p)
    from rp have "\<And>i j c d p. clients ?m i = Some c \<Longrightarrow> clients ?m j = Some d \<Longrightarrow> i \<noteq> j \<Longrightarrow>
        agent_port (agent c) = Some p \<Longrightarrow> agent_port (agent d) \<noteq> Some p"
      unfolding registry_ports_def by blast
    from this [OF that(2) that(3) that(1) Some] Some show ?thesis by simp
  qed
  have rel: "releasePort (releasePort ?m port) port = releasePort ?m port \<and>
        (truthy port \<and> the port \<in> usedPorts ?m \<longrightarrow>
           count_list (availablePorts (releasePort ?m port)) (the port) = 1 \<and>
           the port \<notin> usedPorts (releasePort ?m port)) \<and>
        (\<not> (truthy port \<and> the port \<in> usedPorts ?m) \<longrightarrow> releasePort ?m port = ?m)" for port
    using releasePort_used [OF pp, of port] releasePort_noop [of port ?m] releasePort_twice [of ?m port]
    by simp
  have alloc: "newClient env' ?m i options random_id now outcome = (Thrown No_available_ports, m1)"
    if "newClient_resolve env' ?m i options random_id now = (Inr i', m1)" "availablePorts m1 = []"
    for env' i options random_id now outcome i' m1
  proof -
    from newClient_resolve_range [of env' ?m i options random_id now] that(1) range assms
    have "port_range_configured m1" by (simp add: port_range_configured_def)
    from newClient_no_ports [OF that(1) this that(2)] show ?thesis .
  qed
  have fresh: "newClient env' ?m i options random_id now outcome = (Thrown No_available_ports, ?m)"
    if "registry_get ?m i = Undefined" "availablePorts ?m = []" for env' i options random_id now outcome
  proof -
    from that(1) have "newClient_resolve env' ?m i options random_id now = (Inr i, ?m)"
      by (simp add: newClient_resolve_def Let_def)
    from alloc [OF this that(2)] show ?thesis .
  qed
  show ?thesis
  proof (intro conjI allI impI)
    show "distinct (availablePorts ?m)" by (rule part(1))
    show "set (availablePorts ?m) \<inter> usedPorts ?m = {}" by (rule part(2))
    show "set (availablePorts ?m) \<union> usedPorts ?m = {the lo .. the hi}" by (rule part(3))
  next
    fix i j c d
    assume "i \<noteq> j \<and> clients ?m i = Some c \<and> clients ?m j = Some d"
    then show "agent_port (agent c) \<noteq> agent_port (agent d)"
      using ports [of i j c d] by simp
  next
    fix port
    show "releasePort (releasePort ?m port) port = releasePort ?m port"
      using rel [of port] by simp
    { assume "truthy port \<and> the port \<in> usedPorts ?m"
      then show "count_list (availablePorts (releasePort ?m port)) (the port) = 1"
        and "the port \<notin> usedPorts (releasePort ?m port)"
        using rel [of port] by simp_all }
    { assume "\<not> (truthy port \<and> the port \<in> usedPorts ?m)"
      then show "releasePort ?m port = ?m" using rel [of port] by simp }
  next
    fix env' i options random_id now outcome i' m1
    assume "newClient_resolve env' ?m i options random_id now = (Inr i', m1) \<and> availablePorts m1 = []"
    then show "newClient env' ?m i options random_id now outcome = (Thrown No_available_ports, m1)"
      using alloc [of env' i options random_id now i' m1 outcome] by simp
  next
    fix env' i options random_id now outcome
    assume "registry_get ?m i = Undefined \<and> availablePorts ?m = []"
    then show "newClient env' ?m i options random_id now outcome = (Thrown No_available_ports, ?m)"
      using fresh [of i env' options random_id now outcome] by simp
  qed
qed

lemma two_ports_taken_state:
  "availablePorts two_ports_taken = []"
  "usedPorts two_ports_taken = {10040, 10041}"
  "registry_get two_ports_taken ''client3'' = Undefined"
  by (simp_all add: two_ports_taken_def scenario_defs manager_defs agent_defs client_defs Let_def
      insert_commute)

theorem port_pool_is_a_partition_witness:
  "set (availablePorts two_ports_taken) \<union> usedPorts two_ports_taken = {10040 .. 10041} \<and>
   availablePorts two_ports_taken = [] \<and>
   usedPorts two_ports_taken = {10040, 10041} \<and>
   newClient env0 two_ports_taken ''client3'' (ip_options ''9.9.9.9'') ''clever-wombat-42'' 1002
       (Listening 10042) = (Thrown No_available_ports, two_ports_taken) \<and>
   count_list (availablePorts (releasePort two_ports_taken (Some 10040))) 10040 = 1 \<and>
   releasePort (releasePort two_ports_taken (Some 10040)) (Some 10040)
     = releasePort two_ports_taken (Some 10040)"
proof -
  have t: "truthy (Some 10040)" "truthy (Some 10041)" by (simp_all add: truthy_def)
  note T = port_pool_is_a_partition
    [OF t, of env0 None
       "[ NewClient ''client1'' (ip_options ''1.2.3.4'') ''clever-wombat-42'' 1000 (Listening 10040),
          NewClient ''client2'' (ip_options ''1.2.3.4'') ''clever-wombat-42'' 1001 (Listening 10041) ]",
     folded two_ports_taken_def]
  from T have u: "set (availablePorts two_ports_taken) \<union> usedPorts two_ports_taken = {10040 .. 10041}"
    by simp
  from T have r: "releasePort (releasePort two_ports_taken (Some 10040)) (Some 10040)
     = releasePort two_ports_taken (Some 10040)"
    by blast
  from T have "truthy (Some 10040) \<and> the (Some 10040) \<in> usedPorts two_ports_taken \<longrightarrow>
      count_list (availablePorts (releasePort two_ports_taken (Some 10040))) (the (Some 10040)) = 1"
    by blast
  then have c: "count_list (availablePorts (releasePort two_ports_taken (Some 10040))) 10040 = 1"
    by (simp add: t two_ports_taken_state)
  from T have "registry_get two_ports_taken ''client3'' = Undefined \<and> availablePorts two_ports_taken = [] \<longrightarrow>
      newClient env0 two_ports_taken ''client3'' (ip_options ''9.9.9.9'') ''clever-wombat-42'' 1002
       (Listening 10042) = (Thrown No_available_ports, two_ports_taken)"
    by blast
  then have n: "newClient env0 two_ports_taken ''client3'' (ip_options ''9.9.9.9'') ''clever-wombat-42'' 1002
       (Listening 10042) = (Thrown No_available_ports, two_ports_taken)"
    by (simp add: two_ports_taken_state)
  from u r c n two_ports_taken_state show ?thesis by simp
qed

text \<open>
  A pool of one port is held by tunnel \<open>myapp\<close> of 1.2.3.4: the pool is configured and
  empty.  A call of \<open>newClient\<close> for \<open>myapp\<close> from 1.2.3.4 does not fail: the old
  client is removed, its port goes back to the pool and is allocated again.  With strict
  mode on, a call for \<open>myapp\<close> from 5.6.7.8 fails with the \<open>reserved\<close> error.
\<close>

theorem newClient_succeeds_with_empty_pool:
  "port_range_configured one_port_taken \<and>
   availablePorts one_port_taken = [] \<and>
   fst (newClient env0 one_port_taken ''myapp'' (ip_options ''1.2.3.4'') ''clever-wombat-42'' 2000
          (Listening 10050))
     = Returned \<lparr> info_id = ''myapp'', info_port = 10050, info_max_conn_count = None \<rparr> \<and>
   fst (newClient (env0\<lparr> LT_IP_VALIDATION_STRICT := Some ''true'' \<rparr>) one_port_taken ''myapp''
          (ip_options ''5.6.7.8'') ''clever-wombat-42'' 2000 (Listening 10050))
     = Thrown (Reserved ''myapp'' 29)"
  by (simp add: one_port_taken_def scenario_defs manager_defs agent_defs client_defs Let_def
      ceil_div_1000_def)

subsection \<open>ClientManager: newClient\<close>

lemma newClient_begin_fresh:
  assumes "registry_get m i = Undefined" and "getPort m = Inr (port, m2)"
    and "\<not> getter_only_property i"
  shows "newClient_begin env m i options random_id now =
     (Inr i, m2\<lparr> clients := (clients m2)(i \<mapsto>
        (new_Client i (new_TunnelAgent (max_tcp_sockets m2) port) (opt_ip options)
           (Some (caller_identifier options)) now)
          \<lparr> agent := (new_TunnelAgent (max_tcp_sockets m2) port)\<lparr> started := True \<rparr> \<rparr>) \<rparr>)"
  using assms
  by (simp add: newClient_begin_def newClient_resolve_def agent_listen_def new_TunnelAgent_def Let_def)

text \<open>
  C9 (the code departs from the claim in its last part).  For an id under which the
  registry reads nothing and which can be assigned to, and a port that can be
  allocated: when \<open>newClient\<close> reaches the \<open>await\<close>
  the new client is in the registry under its id, offline and without a grace timer,
  so that a later \<open>newClient\<close> for the same id with another identifier is given the
  random id.  When \<open>listen\<close> rejects, \<open>newClient\<close> throws that error, the id is no
  longer registered and an allocated port is back in the pool; but the tunnels counter
  is one lower than before the call, because \<open>removeClient\<close> decrements a counter that
  is only incremented after \<open>listen\<close> has succeeded.
\<close>

theorem newClient_listen_rejected:
  assumes "registry_get m i = Undefined" and "getPort m = Inr (port, m2)"
    and "\<not> getter_only_property i"
  shows
    "fst (newClient_begin env m i options random_id now) = Inr i \<and>
     (\<exists>c. clients (snd (newClient_begin env m i options random_id now)) i = Some c \<and>
          client_id c = i \<and> the_identifier c = caller_identifier options \<and>
          \<not> isOnline c \<and> graceTimeout c = None \<and> started (agent c)) \<and>
     (caller_identifier options2 \<noteq> caller_identifier options \<longrightarrow>
        newClient_resolve env2 (snd (newClient_begin env m i options random_id now)) i options2
            random_id2 now2
          = (Inr random_id2, snd (newClient_begin env m i options random_id now))) \<and>
     fst (newClient env m i options random_id now (Listen_rejected msg)) = Thrown (Listen_failed msg) \<and>
     clients (snd (newClient env m i options random_id now (Listen_rejected msg))) i = None \<and>
     (\<forall>p. port = Some p \<and> p \<noteq> 0 \<and> port_range_configured m \<longrightarrow>
        p \<notin> usedPorts (snd (newClient env m i options random_id now (Listen_rejected msg))) \<and>
        p \<in> set (availablePorts (snd (newClient env m i options random_id now (Listen_rejected msg))))) \<and>
     stats_tunnels (snd (newClient env m i options random_id now (Listen_rejected msg)))
       = stats_tunnels m - 1"
proof -
  note b = newClient_begin_fresh [OF assms, of env options random_id now]
  note g = getPort_Inr [OF assms(2)]
  have used: "port = Some p \<Longrightarrow> p \<in> usedPorts m2" for p
    using assms(2) by (auto simp: getPort_def split: list.splits if_splits)
  have 1: "fst (newClient_begin env m i options random_id now) = Inr i"
    by (simp add: b)
  have 2: "\<exists>c. clients (snd (newClient_begin env m i options random_id now)) i = Some c \<and>
          client_id c = i \<and> the_identifier c = caller_identifier options \<and>
          \<not> isOnline c \<and> graceTimeout c = None \<and> started (agent c)"
    by (simp add: b new_Client_def)
  have 3: "newClient_resolve env2 (snd (newClient_begin env m i options random_id now)) i options2
            random_id2 now2
          = (Inr random_id2, snd (newClient_begin env m i options random_id now))"
    if "caller_identifier options2 \<noteq> caller_identifier options"
  proof -
    have "\<not> identifierMatch
            ((new_Client i (new_TunnelAgent (max_tcp_sockets m2) port) (opt_ip options)
               (Some (caller_identifier options)) now)
              \<lparr> agent := (new_TunnelAgent (max_tcp_sockets m2) port)\<lparr> started := True \<rparr> \<rparr>)
            (caller_identifier options2)"
      using that by (auto simp: identifierMatch_def new_Client_def)
    then show ?thesis
      by (simp add: b newClient_resolve_entry Let_def new_Client_def)
  qed
  have 4: "fst (newClient env m i options random_id now (Listen_rejected msg)) = Thrown (Listen_failed msg)"
    by (simp add: newClient_def b newClient_finish_def)
  have 5: "clients (snd (newClient env m i options random_id now (Listen_rejected msg))) i = None"
    by (simp add: newClient_def b newClient_finish_def removeClient_clients)
  have 6: "p \<notin> usedPorts (snd (newClient env m i options random_id now (Listen_rejected msg))) \<and>
        p \<in> set (availablePorts (snd (newClient env m i options random_id now (Listen_rejected msg))))"
    if "port = Some p \<and> p \<noteq> 0 \<and> port_range_configured m" for p
    using that used [of p] g(1,2)
    by (simp add: newClient_def b newClient_finish_def removeClient_entry releasePort_def Let_def
        new_TunnelAgent_def new_Client_def truthy_def port_range_configured_def client_close_def
        clearGracePeriod_def agent_destroy_def)
  have 7: "stats_tunnels (snd (newClient env m i options random_id now (Listen_rejected msg)))
       = stats_tunnels m - 1"
    using g(5)
    by (simp add: newClient_def b newClient_finish_def removeClient_entry Let_def)
  from 1 2 3 4 5 6 7 show ?thesis by blast
qed

theorem newClient_listen_rejected_witness:
  "fst (newClient env0 bad_port_range ''abcd'' (ip_options ''1.2.3.4'') ''clever-wombat-42'' 1000
          (Listen_rejected ''ERR_SOCKET_BAD_PORT'')) = Thrown (Listen_failed ''ERR_SOCKET_BAD_PORT'') \<and>
   clients (snd (newClient env0 bad_port_range ''abcd'' (ip_options ''1.2.3.4'') ''clever-wombat-42''
          1000 (Listen_rejected ''ERR_SOCKET_BAD_PORT''))) ''abcd'' = None \<and>
   stats_tunnels bad_port_range = 0 \<and>
   stats_tunnels (snd (newClient env0 bad_port_range ''abcd'' (ip_options ''1.2.3.4'')
          ''clever-wombat-42'' 1000 (Listen_rejected ''ERR_SOCKET_BAD_PORT''))) = - 1"
proof -
  have a: "registry_get bad_port_range ''abcd'' = Undefined"
    by (simp add: bad_port_range_def new_ClientManager_def registry_get_def inherited_property_def
        inherited_names_def)
  have k: "\<not> getter_only_property ''abcd''"
    by (simp add: getter_only_property_def getter_only_names_def)
  have g: "getPort bad_port_range =
      Inr (Some 70000, bad_port_range\<lparr> availablePorts := [70001], usedPorts := {70000} \<rparr>)"
    by (simp add: bad_port_range_def new_ClientManager_def getPort_def truthy_def)
  have s: "stats_tunnels bad_port_range = 0"
    by (simp add: bad_port_range_def new_ClientManager_def)
  from newClient_listen_rejected
         [OF a g k, where env = env0 and options = "ip_options ''1.2.3.4''"
             and random_id = "''clever-wombat-42''" and now = 1000
             and msg = "''ERR_SOCKET_BAD_PORT''"]
  show ?thesis using s by simp
qed

text \<open>
  The id \<open>size\<close> passes the route's validation and reads as absent, but the
  assignment \<open>clients[id] = client\<close> throws: \<open>newClient\<close> fails with a \<open>TypeError\<close>
  after it has taken a port, no client is registered, and the port stays in the used
  set.
\<close>

lemma getter_only_name_keeps_the_port:
  "subdomain_regex_test ''size'' \<and>
   registry_get (new_ClientManager None (Some 10040) (Some 10041)) ''size'' = Undefined \<and>
   newClient env0 (new_ClientManager None (Some 10040) (Some 10041)) ''size''
       (ip_options ''1.2.3.4'') ''clever-wombat-42'' 1000 (Listening 10040)
     = (Thrown Cannot_set_property,
        (new_ClientManager None (Some 10040) (Some 10041))
          \<lparr> availablePorts := [10041], usedPorts := {10040} \<rparr>) \<and>
   clients (snd (newClient env0 (new_ClientManager None (Some 10040) (Some 10041)) ''size''
       (ip_options ''1.2.3.4'') ''clever-wombat-42'' 1000 (Listening 10040))) ''size'' = None"
  by (simp add: subdomain_regex_test_def subdomain_alt1_def subdomain_alt2_def lower_alnum_def
      lower_alnum_hyphen_def manager_defs Let_def)

lemma newClient_unfold:
  assumes "newClient_resolve env m i options random_id now = (Inr i', m1)"
  shows "newClient env m i options random_id now outcome =
     (case getPort m1 of
        Inl err \<Rightarrow> (Thrown err, m1)
      | Inr (port, m2) \<Rightarrow>
          if getter_only_property i' \<and> clients m2 i' = None then (Thrown Cannot_set_property, m2)
          else
          newClient_finish
            (m2\<lparr> clients := (clients m2)(i' \<mapsto>
               (new_Client i' (new_TunnelAgent (max_tcp_sockets m2) port) (opt_ip options)
                  (Some (caller_identifier options)) now)
                 \<lparr> agent := (new_TunnelAgent (max_tcp_sockets m2) port)\<lparr> started := True \<rparr> \<rparr>) \<rparr>)
            i' outcome)"
  using assms
  by (simp add: newClient_def newClient_begin_def agent_listen_def new_TunnelAgent_def Let_def
      split: sum.splits prod.splits)

lemma newClient_returns_resolved_id:
  assumes "newClient_resolve env m i options random_id now = (Inr i', m1)"
    and "fst (newClient env m i options random_id now outcome) = Returned info"
  shows "info_id info = i'"
proof (cases "getPort m1")
  case (Inl err)
  with assms show ?thesis by (simp add: newClient_unfold)
next
  case (Inr pm)
  obtain port m2 where "pm = (port, m2)" by (cases pm)
  with Inr assms show ?thesis
    by (cases outcome) (auto simp: newClient_unfold newClient_finish_def split: if_splits)
qed

lemma newClient_listening:
  assumes "newClient_resolve env m i options random_id now = (Inr i', m1)"
    and "getPort m1 = Inr (port, m2)"
    and "\<not> (getter_only_property i' \<and> clients m1 i' = None)"
  shows "fst (newClient env m i options random_id now (Listening p))
           = Returned \<lparr> info_id = i', info_port = p, info_max_conn_count = max_tcp_sockets m1 \<rparr>"
    and "\<exists>c. clients (snd (newClient env m i options random_id now (Listening p))) i' = Some c \<and>
             the_identifier c = caller_identifier options \<and> createdAt c = now \<and>
             agent_port (agent c) = port"
    and "j \<noteq> i' \<Longrightarrow>
         clients (snd (newClient env m i options random_id now (Listening p))) j = clients m1 j"
  using assms getPort_Inr(3,4) [OF assms(2)]
  by (simp_all add: newClient_unfold newClient_finish_def new_Client_def new_TunnelAgent_def)

lemma newClient_cannot_store:
  assumes "newClient_resolve env m i options random_id now = (Inr i', m1)"
    and "getPort m1 = Inr (port, m2)"
    and "getter_only_property i' \<and> clients m1 i' = None"
  shows "newClient env m i options random_id now outcome = (Thrown Cannot_set_property, m2)"
  using assms getPort_Inr(4) [OF assms(2)]
  by (simp add: newClient_unfold)

lemma getPort_after_release:
  assumes inv: "manager_inv m" and ex: "clients m i = Some existing"
    and nz: "agent_port (agent existing) \<noteq> Some 0"
  shows "\<exists>port m2. getPort (removeClient m i) = Inr (port, m2)"
proof (cases "port_range_configured m")
  case False
  with inv have "availablePorts m = []" by (simp add: manager_inv_def ports_partition_def)
  with False ex have "availablePorts (removeClient m i) = []"
    by (simp add: removeClient_entry releasePort_def port_range_configured_def Let_def)
  with False show ?thesis by (simp add: getPort_def)
next
  case True
  from inv have rp: "\<And>j c. clients m j = Some c \<Longrightarrow>
        (\<forall>p. agent_port (agent c) = Some p \<longrightarrow> p \<in> usedPorts m) \<and>
        (agent_port (agent c) = None \<longrightarrow> \<not> port_range_configured m)"
    unfolding manager_inv_def registry_ports_def by blast
  from rp [OF ex] True obtain q where q: "agent_port (agent existing) = Some q" and qu: "q \<in> usedPorts m"
    by (cases "agent_port (agent existing)") simp_all
  with nz have "q \<noteq> 0" by simp
  with q qu True ex have "availablePorts (removeClient m i) = availablePorts m @ [q]"
    by (simp add: removeClient_entry releasePort_def port_range_configured_def truthy_def Let_def)
  then show ?thesis by (cases "availablePorts m") (simp_all add: getPort_def)
qed

text \<open>
  C1 (as the code has it).  Let the registry hold, under the requested id, a client that
  is offline with a grace timer.  Same identifier: the old client is removed and closed
  and creation goes on under the requested id; no result of the call carries another
  id, and when \<open>listen\<close> resolves (in a manager state reached by its operations, the old
  client's port not being 0) the call returns the requested id and the registry holds
  the caller's new client under it.  Other identifier, strict mode: the call throws
  the \<open>reserved\<close> error with the seconds that \<open>getGracePeriodRemaining\<close> gives, and
  the manager is unchanged.  Other identifier, strict mode off: creation goes on under
  the id that \<open>hri.random()\<close> returned, the old client staying registered under a
  different id; the call returns that id when a port can be allocated and \<open>listen\<close>
  resolves, and throws \<open>No available ports in range\<close> when the configured pool is
  empty.  (Were the random id a name that cannot be assigned to, which
  \<open>hri.random()\<close> does not return, the call would throw at the assignment.)
\<close>

theorem newClient_while_id_in_grace:
  assumes "clients m i = Some existing"
    and "graceTimeout existing \<noteq> None" and "\<not> isOnline existing"
  shows
    "(identifierMatch existing (caller_identifier options) \<longrightarrow>
        newClient_resolve env m i options random_id now = (Inr i, removeClient m i) \<and>
        clients (removeClient m i) i = None \<and>
        closed_clients (removeClient m i) = closed_clients m @ [client_close existing] \<and>
        (\<forall>info. fst (newClient env m i options random_id now outcome) = Returned info \<longrightarrow>
                info_id info = i) \<and>
        (manager_inv m \<and> agent_port (agent existing) \<noteq> Some 0 \<longrightarrow>
           fst (newClient env m i options random_id now (Listening p))
             = Returned \<lparr> info_id = i, info_port = p, info_max_conn_count = max_tcp_sockets m \<rparr> \<and>
           (\<exists>c. clients (snd (newClient env m i options random_id now (Listening p))) i = Some c \<and>
                the_identifier c = caller_identifier options \<and> createdAt c = now))) \<and>
     (\<not> identifierMatch existing (caller_identifier options) \<and> strictMode env \<longrightarrow>
        newClient env m i options random_id now outcome
          = (Thrown (Reserved i (ceil_div_1000 (getGracePeriodRemaining env existing now))), m)) \<and>
     (\<not> identifierMatch existing (caller_identifier options) \<and> \<not> strictMode env \<longrightarrow>
        newClient_resolve env m i options random_id now = (Inr random_id, m) \<and>
        (port_range_configured m \<and> availablePorts m = [] \<longrightarrow>
           newClient env m i options random_id now outcome = (Thrown No_available_ports, m)) \<and>
        (\<forall>port m2. getPort m = Inr (port, m2) \<longrightarrow>
           fst (newClient env m i options random_id now (Listening p))
             = (if getter_only_property random_id \<and> clients m random_id = None
                then Thrown Cannot_set_property
                else Returned \<lparr> info_id = random_id, info_port = p,
                                info_max_conn_count = max_tcp_sockets m \<rparr>) \<and>
           (random_id \<noteq> i \<longrightarrow>
              clients (snd (newClient env m i options random_id now (Listening p))) i
                = Some existing)))"
proof (intro conjI impI)
  assume match: "identifierMatch existing (caller_identifier options)"
  show res: "newClient_resolve env m i options random_id now = (Inr i, removeClient m i)"
    using assms match by (simp add: newClient_resolve_entry Let_def)
  show "clients (removeClient m i) i = None" by (simp add: removeClient_clients)
  show "closed_clients (removeClient m i) = closed_clients m @ [client_close existing]"
    using assms(1) by (simp add: removeClient_entry Let_def)
  show "\<forall>info. fst (newClient env m i options random_id now outcome) = Returned info \<longrightarrow>
                info_id info = i"
    using newClient_returns_resolved_id [OF res] by blast
  assume inv: "manager_inv m \<and> agent_port (agent existing) \<noteq> Some 0"
  then obtain port m2 where gp: "getPort (removeClient m i) = Inr (port, m2)"
    using getPort_after_release [OF _ assms(1)] by blast
  from inv assms(1) have "\<not> getter_only_property i"
    by (auto simp: manager_inv_def registry_keys_def)
  then have key: "\<not> (getter_only_property i \<and> clients (removeClient m i) i = None)" by simp
  from newClient_listening(1) [OF res gp key, of p]
  show "fst (newClient env m i options random_id now (Listening p))
             = Returned \<lparr> info_id = i, info_port = p, info_max_conn_count = max_tcp_sockets m \<rparr>"
    by simp
  from newClient_listening(2) [OF res gp key, of p]
  show "\<exists>c. clients (snd (newClient env m i options random_id now (Listening p))) i = Some c \<and>
                the_identifier c = caller_identifier options \<and> createdAt c = now"
    by blast
next
  assume "\<not> identifierMatch existing (caller_identifier options) \<and> strictMode env"
  then show "newClient env m i options random_id now outcome
          = (Thrown (Reserved i (ceil_div_1000 (getGracePeriodRemaining env existing now))), m)"
    using assms by (simp add: newClient_def newClient_begin_def newClient_resolve_entry Let_def)
next
  assume other: "\<not> identifierMatch existing (caller_identifier options) \<and> \<not> strictMode env"
  show res: "newClient_resolve env m i options random_id now = (Inr random_id, m)"
    using assms other by (simp add: newClient_resolve_entry Let_def)
  { assume "port_range_configured m \<and> availablePorts m = []"
    then show "newClient env m i options random_id now outcome = (Thrown No_available_ports, m)"
      using newClient_no_ports [OF res] by simp }
  show "\<forall>port m2. getPort m = Inr (port, m2) \<longrightarrow>
           fst (newClient env m i options random_id now (Listening p))
             = (if getter_only_property random_id \<and> clients m random_id = None
                then Thrown Cannot_set_property
                else Returned \<lparr> info_id = random_id, info_port = p,
                                info_max_conn_count = max_tcp_sockets m \<rparr>) \<and>
           (random_id \<noteq> i \<longrightarrow>
              clients (snd (newClient env m i options random_id now (Listening p))) i
                = Some existing)"
  proof (intro allI impI)
    fix port m2
    assume gp: "getPort m = Inr (port, m2)"
    show "fst (newClient env m i options random_id now (Listening p))
             = (if getter_only_property random_id \<and> clients m random_id = None
                then Thrown Cannot_set_property
                else Returned \<lparr> info_id = random_id, info_port = p,
                                info_max_conn_count = max_tcp_sockets m \<rparr>) \<and>
           (random_id \<noteq> i \<longrightarrow>
              clients (snd (newClient env m i options random_id now (Listening p))) i
                = Some existing)"
    proof (cases "getter_only_property random_id \<and> clients m random_id = None")
      case True
      from newClient_cannot_store [OF res gp True, of "Listening p"] True
        getPort_Inr(4) [OF gp] assms(1)
      show ?thesis by simp
    next
      case False
      from newClient_listening(1) [OF res gp False, of p]
      have 1: "fst (newClient env m i options random_id now (Listening p))
             = Returned \<lparr> info_id = random_id, info_port = p,
                           info_max_conn_count = max_tcp_sockets m \<rparr>" .
      have 2: "clients (snd (newClient env m i options random_id now (Listening p))) i
                 = Some existing" if "random_id \<noteq> i"
      proof -
        from that have "i \<noteq> random_id" by simp
        from newClient_listening(3) [OF res gp False this, of p] assms(1)
        show ?thesis by simp
      qed
      from 1 2 False show ?thesis by auto
    qed
  qed
qed

lemma one_port_taken_state:
  "availablePorts one_port_taken = []"
  "usedPorts one_port_taken = {10050}"
  "port_range_configured one_port_taken"
  "\<exists>c. clients one_port_taken ''myapp'' = Some c \<and> \<not> isOnline c \<and> graceTimeout c = Some 0 \<and>
       the_identifier c = \<lparr> id_type = ''ip'', id_value = Some ''1.2.3.4'' \<rparr> \<and>
       agent_port (agent c) = Some 10050 \<and> createdAt c = 1000"
  by (simp_all add: one_port_taken_def scenario_defs manager_defs agent_defs client_defs Let_def)

lemma one_port_taken_inv: "manager_inv one_port_taken"
  unfolding one_port_taken_def by (rule manager_inv_run) (rule manager_inv_new)

text \<open>
  A pool of one port is held by tunnel \<open>myapp\<close> of 1.2.3.4, in its grace period.  With
  strict mode off, a request for \<open>myapp\<close> from 5.6.7.8 does not succeed with a random
  id: it throws \<open>No available ports in range\<close>.
\<close>

theorem newClient_silent_mode_fails_without_port:
  "(case clients one_port_taken ''myapp'' of
      None \<Rightarrow> False
    | Some c \<Rightarrow>
        \<not> isOnline c \<and> graceTimeout c \<noteq> None \<and>
        \<not> identifierMatch c (caller_identifier (ip_options ''5.6.7.8''))) \<and>
   \<not> strictMode env0 \<and>
   fst (newClient env0 one_port_taken ''myapp'' (ip_options ''5.6.7.8'') ''clever-wombat-42'' 2000
          (Listening 10050)) = Thrown No_available_ports"
  by (simp add: one_port_taken_def scenario_defs manager_defs agent_defs client_defs Let_def)

theorem newClient_while_id_in_grace_witness:
  "fst (newClient env0 one_port_taken ''myapp'' (ip_options ''1.2.3.4'') ''clever-wombat-42'' 2000
          (Listening 10050))
     = Returned \<lparr> info_id = ''myapp'', info_port = 10050, info_max_conn_count = None \<rparr> \<and>
   length (closed_clients (removeClient one_port_taken ''myapp'')) = 1 \<and>
   newClient (env0\<lparr> LT_IP_VALIDATION_STRICT := Some ''true'' \<rparr>) one_port_taken ''myapp''
       (ip_options ''5.6.7.8'') ''clever-wombat-42'' 2000 (Listening 10050)
     = (Thrown (Reserved ''myapp'' 29), one_port_taken) \<and>
   newClient env0 one_port_taken ''myapp'' (ip_options ''5.6.7.8'') ''clever-wombat-42'' 2000
       (Listening 10050) = (Thrown No_available_ports, one_port_taken)"
proof -
  from one_port_taken_state(4) obtain c where
    c: "clients one_port_taken ''myapp'' = Some c" "\<not> isOnline c" "graceTimeout c = Some 0"
      "the_identifier c = \<lparr> id_type = ''ip'', id_value = Some ''1.2.3.4'' \<rparr>"
      "agent_port (agent c) = Some 10050" "createdAt c = 1000"
    by blast
  then have g: "graceTimeout c \<noteq> None" by simp
  have same: "identifierMatch c (caller_identifier (ip_options ''1.2.3.4''))"
    and other: "\<not> identifierMatch c (caller_identifier (ip_options ''5.6.7.8''))"
    using c(4) by (simp_all add: identifierMatch_def caller_identifier_def ip_options_def)
  have strict: "strictMode (env0\<lparr> LT_IP_VALIDATION_STRICT := Some ''true'' \<rparr>)"
    and silent: "\<not> strictMode env0"
    by (simp_all add: strictMode_def env0_def)
  have nz: "agent_port (agent c) \<noteq> Some 0" using c(5) by simp
  note T1 = newClient_while_id_in_grace
    [OF c(1) g c(2), where options = "ip_options ''1.2.3.4''" and env = env0
       and random_id = "''clever-wombat-42''" and now = 2000 and p = 10050]
  from T1 same one_port_taken_inv nz
  have r1: "fst (newClient env0 one_port_taken ''myapp'' (ip_options ''1.2.3.4'') ''clever-wombat-42''
          2000 (Listening 10050))
     = Returned \<lparr> info_id = ''myapp'', info_port = 10050,
                   info_max_conn_count = max_tcp_sockets one_port_taken \<rparr>"
    and r2: "closed_clients (removeClient one_port_taken ''myapp'')
       = closed_clients one_port_taken @ [client_close c]"
    by blast+
  note T2 = newClient_while_id_in_grace
    [OF c(1) g c(2), where options = "ip_options ''5.6.7.8''"
       and env = "env0\<lparr> LT_IP_VALIDATION_STRICT := Some ''true'' \<rparr>"
       and random_id = "''clever-wombat-42''" and now = 2000 and outcome = "Listening 10050"]
  from T2 other strict
  have r3: "newClient (env0\<lparr> LT_IP_VALIDATION_STRICT := Some ''true'' \<rparr>) one_port_taken ''myapp''
       (ip_options ''5.6.7.8'') ''clever-wombat-42'' 2000 (Listening 10050)
     = (Thrown (Reserved ''myapp''
          (ceil_div_1000 (getGracePeriodRemaining (env0\<lparr> LT_IP_VALIDATION_STRICT := Some ''true'' \<rparr>)
             c 2000))), one_port_taken)"
    by blast
  note T3 = newClient_while_id_in_grace
    [OF c(1) g c(2), where options = "ip_options ''5.6.7.8''" and env = env0
       and random_id = "''clever-wombat-42''" and now = 2000 and outcome = "Listening 10050"]
  from T3 other silent one_port_taken_state(1,3)
  have r4: "newClient env0 one_port_taken ''myapp'' (ip_options ''5.6.7.8'') ''clever-wombat-42'' 2000
       (Listening 10050) = (Thrown No_available_ports, one_port_taken)"
    by blast
  have m: "max_tcp_sockets one_port_taken = None" "closed_clients one_port_taken = []"
    by (simp_all add: one_port_taken_def scenario_defs manager_defs agent_defs client_defs Let_def)
  have rem: "ceil_div_1000 (getGracePeriodRemaining (env0\<lparr> LT_IP_VALIDATION_STRICT := Some ''true'' \<rparr>)
             c 2000) = 29"
    using c(3,6)
    by (simp add: getGracePeriodRemaining_def getGracePeriod_def DEFAULT_GRACE_PERIOD_def env0_def
        ceil_div_1000_def Let_def)
  from r1 r2 r3 r4 m rem show ?thesis by simp
qed

end
